theory Spec2Isabelle
  imports Complex_Main "HOL-Library.List_Lexorder" "HOL-Library.Char_ord"
begin

section \<open>Data model of \<open>opentaps_seas/core/utils.py\<close>\<close>

text \<open>
  Python strings are byte strings here (\<open>char list\<close>, UTF-8); their order is the
  lexicographic order of \<open>HOL-Library.List_Lexorder\<close> over \<open>HOL-Library.Char_ord\<close>, which
  on UTF-8 agrees with Python's comparison by code point.

  The \<open>'value'\<close> of a dictionary produced by \<open>get_current_value_dict\<close> is a Python bool
  (kind \<open>Bool\<close>), or the reading's string, or \<open>None\<close> where that string is NULL.
\<close>

datatype error = ValueError | OverflowError | TypeError | IndexError | ParserError | StoreError

datatype cv_value = BoolV bool | StrV string | NoneV

record value_dict =
  v_value :: cv_value
  v_epoch :: int
  v_fmttime :: string
  v_time :: string
  v_unit :: "string option"

text \<open>
  What \<open>add_current_values\<close> stores in \<open>d.current_value\<close>: the raw dictionary, the empty
  dictionary \<open>{}\<close>, the HTML produced by \<open>format_html\<close>, or the plain string \<open>'N/A'\<close>.
\<close>

datatype current_value = CvDict value_dict | CvEmptyDict | CvHtml string | CvStr string

text \<open>
  A row of \<open>PointView\<close>. \<open>m_tags\<close> is an array column and \<open>kv_tags\<close> an hstore column
  (a dictionary, kept as an association list in key order); a NULL column and an empty
  one are both the empty list, the code only ever tests them for truth. \<open>unit\<close> is the
  empty string when absent. \<open>current_value\<close> is the attribute \<open>add_current_values\<close> sets.
\<close>

record point =
  entity_id :: string
  topic :: string
  kind :: string
  unit :: string
  equipment_id :: string
  m_tags :: "string list"
  kv_tags :: "(string \<times> string) list"
  current_value :: "current_value option"

text \<open>
  A row of \<open>Topic\<close> together with what its method \<open>get_related_point()\<close> returns
  (the method lives in the models module; its result is data here).
\<close>

record topic_row =
  topic_name :: string
  related_point :: "point option"

section \<open>\<open>get_topics_tags_report\<close>\<close>

text \<open>\<open>for x in xs: if x not in report_header: report_header.append(x)\<close>\<close>

fun add_missing :: "string list \<Rightarrow> string list \<Rightarrow> string list" where
  "add_missing report_header [] = report_header"
| "add_missing report_header (x # xs) =
     add_missing (if x \<in> set report_header then report_header else report_header @ [x]) xs"

text \<open>The per-topic dictionary \<open>topic_tags\<close>, with its two optional keys.\<close>

record topic_tags =
  kv_entry :: "(string \<times> string) list option"
  m_entry :: "string list option"

type_synonym scan_state = "string list \<times> (string \<rightharpoonup> topic_tags)"

text \<open>One iteration of the first loop, on the state \<open>(report_header, topics_tags)\<close>.\<close>

definition scan_topic :: "scan_state \<Rightarrow> topic_row \<Rightarrow> scan_state" where
  "scan_topic st t =
     (case st of (report_header, topics_tags) \<Rightarrow>
        (case related_point t of
           None \<Rightarrow> (report_header, topics_tags)
         | Some p \<Rightarrow>
             (let tt0 = \<lparr>kv_entry = None, m_entry = None\<rparr>;
                  (h1, tt1, e1) =
                     (if kv_tags p \<noteq> []
                      then (add_missing report_header (map fst (kv_tags p)),
                            tt0\<lparr>kv_entry := Some (kv_tags p)\<rparr>, True)
                      else (report_header, tt0, False));
                  (h2, tt2, e2) =
                     (if m_tags p \<noteq> []
                      then (add_missing h1 (m_tags p), tt1\<lparr>m_entry := Some (m_tags p)\<rparr>, True)
                      else (h1, tt1, e1))
              in (h2, if e2 then topics_tags(topic_name t \<mapsto> tt2) else topics_tags))))"

definition scan_topics :: "topic_row list \<Rightarrow> scan_state" where
  "scan_topics topics = foldl scan_topic ([], Map.empty) topics"

text \<open>The value appended to a row for the column \<open>tag\<close>.\<close>

definition cell :: "(string \<times> string) list \<Rightarrow> string list \<Rightarrow> string \<Rightarrow> string" where
  "cell kv m tag =
     (if kv \<noteq> [] \<and> tag \<in> set (map fst kv)
      then (case map_of kv tag of Some v \<Rightarrow> v | None \<Rightarrow> [])
      else if m \<noteq> [] \<and> tag \<in> set m then ''X''
      else [])"

text \<open>One iteration of the second loop: the row of one topic.\<close>

definition make_row :: "string list \<Rightarrow> (string \<rightharpoonup> topic_tags) \<Rightarrow> topic_row \<Rightarrow> string list" where
  "make_row report_header topics_tags t =
     (let row = [topic_name t] in
      case topics_tags (topic_name t) of
        None \<Rightarrow> row @ replicate (length report_header) []
      | Some tt \<Rightarrow>
          if kv_entry tt = None \<and> m_entry tt = None
          then row @ replicate (length report_header) []
          else
            (let kv = (case kv_entry tt of None \<Rightarrow> [] | Some k \<Rightarrow> k);
                 m = (case m_entry tt of None \<Rightarrow> [] | Some l \<Rightarrow> l)
             in if kv \<noteq> [] \<or> m \<noteq> []
                then foldl (\<lambda>r tag. r @ [cell kv m tag]) row report_header
                else row @ [[]]))"

text \<open>The function returns \<open>(report_rows, report_header)\<close>.\<close>

definition get_topics_tags_report :: "topic_row list \<Rightarrow> string list list \<times> string list" where
  "get_topics_tags_report topics =
     (case scan_topics topics of (report_header0, topics_tags) \<Rightarrow>
        (let report_header = sort report_header0;
             report_rows = foldl (\<lambda>rows t. rows @ [make_row report_header topics_tags t]) [] topics
         in (report_rows, ''topic'' # report_header)))"

text \<open>The tags observed on the related points of a list of topics.\<close>

definition point_tags :: "point \<Rightarrow> string set" where
  "point_tags p = fst ` set (kv_tags p) \<union> set (m_tags p)"

fun observed_tags :: "topic_row list \<Rightarrow> string set" where
  "observed_tags [] = {}"
| "observed_tags (t # ts) =
     (case related_point t of None \<Rightarrow> {} | Some p \<Rightarrow> point_tags p) \<union> observed_tags ts"

text \<open>Whether a topic carries no tag at all: no related point, or one without tags.\<close>

definition untagged :: "topic_row \<Rightarrow> bool" where
  "untagged t = (case related_point t of None \<Rightarrow> True | Some p \<Rightarrow> kv_tags p = [] \<and> m_tags p = [])"

text \<open>
  What the first loop stores in \<open>topics_tags\<close>: a dictionary with at least one non-empty
  entry.
\<close>

definition tt_ok :: "topic_tags \<Rightarrow> bool" where
  "tt_ok tt = ((case kv_entry tt of None \<Rightarrow> False | Some k \<Rightarrow> k \<noteq> []) \<or>
               (case m_entry tt of None \<Rightarrow> False | Some l \<Rightarrow> l \<noteq> []))"

text \<open>The topics of the report example: a marker tag, a key-value tag, no point.\<close>

definition ex_A :: topic_row where
  "ex_A = \<lparr>topic_name = ''A'', related_point = Some \<lparr>entity_id = ''a'', topic = ''A'', kind = ''Number'',
     unit = [], equipment_id = ''e'', m_tags = [''his''], kv_tags = [], current_value = None\<rparr>\<rparr>"
definition ex_B :: topic_row where
  "ex_B = \<lparr>topic_name = ''B'', related_point = Some \<lparr>entity_id = ''b'', topic = ''B'', kind = ''Number'',
     unit = [], equipment_id = ''e'', m_tags = [], kv_tags = [(''dis'', ''Room 1'')], current_value = None\<rparr>\<rparr>"
definition ex_C :: topic_row where
  "ex_C = \<lparr>topic_name = ''C'', related_point = None\<rparr>"

section \<open>Python library functions the code calls\<close>

subsection \<open>Values, truth, \<open>round\<close> and \<open>int\<close>\<close>

text \<open>
  A column value as the store's client returns it: \<open>None\<close> (SQL NULL), a string, an
  integer or a double. A finite double is modelled by its exact rational value;
  infinities and NaN are left out.
\<close>

datatype pyval = VNone | VStr string | VInt int | VNum rat

fun truthy :: "pyval \<Rightarrow> bool" where
  "truthy VNone = False"
| "truthy (VStr s) = (s \<noteq> [])"
| "truthy (VInt i) = (i \<noteq> 0)"
| "truthy (VNum q) = (q \<noteq> 0)"

text \<open>\<open>round(x)\<close> with one argument: to the nearest integer, a tie to the even one.\<close>

definition round_half_even :: "rat \<Rightarrow> int" where
  "round_half_even q =
     (let f = \<lfloor>q\<rfloor>; d = q - of_int f
      in if d < 1 / 2 then f else if 1 / 2 < d then f + 1 else if even f then f else f + 1)"

fun py_round :: "pyval \<Rightarrow> error + int" where
  "py_round (VNum q) = Inr (round_half_even q)"
| "py_round (VInt i) = Inr i"
| "py_round VNone = Inl TypeError"
| "py_round (VStr s) = Inl TypeError"

text \<open>
  \<open>int(s)\<close> for a string, base 10, on ASCII input: surrounding whitespace is dropped,
  one sign is allowed, then decimal digits, where a single underscore may stand between
  two digits. \<open>None\<close> is the \<open>ValueError\<close>.
\<close>

definition is_space :: "char \<Rightarrow> bool" where
  "is_space c = ((of_char c :: nat) \<in> set [9, 10, 11, 12, 13, 28, 29, 30, 31, 32])"

definition is_digit :: "char \<Rightarrow> bool" where
  "is_digit c = (48 \<le> (of_char c :: nat) \<and> (of_char c :: nat) \<le> 57)"

definition digit_val :: "char \<Rightarrow> int" where
  "digit_val c = int (of_char c) - 48"

definition strip :: "string \<Rightarrow> string" where
  "strip s = rev (dropWhile is_space (rev (dropWhile is_space s)))"

fun parse_digits :: "int \<Rightarrow> string \<Rightarrow> int option" where
  "parse_digits acc [] = Some acc"
| "parse_digits acc [c] = (if is_digit c then Some (10 * acc + digit_val c) else None)"
| "parse_digits acc (c # d # cs) =
     (if is_digit c then parse_digits (10 * acc + digit_val c) (d # cs)
      else if c = CHR ''_'' \<and> is_digit d then parse_digits (10 * acc + digit_val d) cs
      else None)"

definition parse_nat :: "string \<Rightarrow> int option" where
  "parse_nat s =
     (case s of [] \<Rightarrow> None
      | c # cs \<Rightarrow> if is_digit c then parse_digits (digit_val c) cs else None)"

definition py_int :: "string \<Rightarrow> int option" where
  "py_int s =
     (case strip s of [] \<Rightarrow> None
      | c # cs \<Rightarrow>
          if c = CHR ''-'' then map_option uminus (parse_nat cs)
          else if c = CHR ''+'' then parse_nat cs
          else parse_nat (c # cs))"

text \<open>The slices \<open>s[-n:]\<close> and \<open>s[:-n]\<close> for \<open>n > 0\<close>, and \<open>s.split(sep)\<close> for one character.\<close>

definition py_last :: "nat \<Rightarrow> string \<Rightarrow> string" where
  "py_last n s = drop (length s - n) s"

definition py_drop_last :: "nat \<Rightarrow> string \<Rightarrow> string" where
  "py_drop_last n s = take (length s - n) s"

fun split_on :: "char \<Rightarrow> string \<Rightarrow> string list" where
  "split_on sep [] = [[]]"
| "split_on sep (c # cs) =
     (if c = sep then [] # split_on sep cs
      else (case split_on sep cs of [] \<Rightarrow> [[c]] | w # ws \<Rightarrow> (c # w) # ws))"

subsection \<open>\<open>datetime\<close> and \<open>timedelta\<close>\<close>

text \<open>
  A naive \<open>datetime\<close> is its number of microseconds since 0001-01-01 00:00:00; the type
  holds the years 1 to 9999, that is 3652059 days. A \<open>timedelta\<close> is a number of
  microseconds whose whole days have magnitude at most 999999999. Building a
  \<open>timedelta\<close> outside that range, and arithmetic that leaves the range of \<open>datetime\<close>,
  raise \<open>OverflowError\<close>.
\<close>

type_synonym datetime = int

definition US_PER_SECOND :: int where "US_PER_SECOND = 1000000"
definition US_PER_MINUTE :: int where "US_PER_MINUTE = 60000000"
definition US_PER_HOUR :: int where "US_PER_HOUR = 3600000000"
definition US_PER_DAY :: int where "US_PER_DAY = 86400000000"
definition MAX_DELTA_DAYS :: int where "MAX_DELTA_DAYS = 999999999"
definition DATETIME_DAYS :: int where "DATETIME_DAYS = 3652059"

definition valid_datetime :: "int \<Rightarrow> bool" where
  "valid_datetime t = (0 \<le> t \<and> t < DATETIME_DAYS * US_PER_DAY)"

text \<open>\<open>timedelta(days=d, hours=h, minutes=m)\<close>\<close>

definition timedelta :: "int \<Rightarrow> int \<Rightarrow> int \<Rightarrow> error + int" where
  "timedelta d h m =
     (let us = d * US_PER_DAY + h * US_PER_HOUR + m * US_PER_MINUTE
      in if - MAX_DELTA_DAYS \<le> us div US_PER_DAY \<and> us div US_PER_DAY \<le> MAX_DELTA_DAYS
         then Inr us else Inl OverflowError)"

text \<open>\<open>t - delta\<close>\<close>

definition datetime_sub :: "datetime \<Rightarrow> int \<Rightarrow> error + datetime" where
  "datetime_sub t delta = (if valid_datetime (t - delta) then Inr (t - delta) else Inl OverflowError)"

text \<open>
  \<open>datetime.utcfromtimestamp(secs)\<close> for whole seconds since 1970-01-01: the result is
  kept as that number of seconds; outside the years 1 to 9999 the call raises (one
  error value stands for the \<open>ValueError\<close>, \<open>OverflowError\<close> or \<open>OSError\<close> of the platform).
\<close>

definition utcfromtimestamp :: "int \<Rightarrow> error + int" where
  "utcfromtimestamp secs =
     (if - 62135596800 \<le> secs \<and> secs \<le> 253402300799 then Inr secs else Inl ValueError)"

section \<open>\<open>get_point_values\<close>\<close>

definition DEFAULT_RANGE :: string where "DEFAULT_RANGE = ''24h''"
definition DEFAULT_RES :: string where "DEFAULT_RES = ''minute''"

text \<open>Sequencing of two steps of which the first may raise.\<close>

definition on_ok :: "error + 'a \<Rightarrow> ('a \<Rightarrow> error + 'b) \<Rightarrow> error + 'b" where
  "on_ok r f = (case r of Inl e \<Rightarrow> Inl e | Inr x \<Rightarrow> f x)"

text \<open>\<open>int(s)\<close>, raising \<open>ValueError\<close>.\<close>

definition int_of :: "string \<Rightarrow> error + int" where
  "int_of s = (case py_int s of None \<Rightarrow> Inl ValueError | Some n \<Rightarrow> Inr n)"

text \<open>
  The conversion of the range (the \<open>if\<close>/\<open>elif\<close> chain of the function). The code reads
  the clock twice, first for \<open>end\<close> and then for \<open>start\<close>; the two readings are the
  arguments \<open>now_end\<close> and \<open>now_start\<close>. \<open>parse_datetime\<close> is \<open>dateutil.parser.parse\<close>.
  The result is \<open>(start, end)\<close>.
\<close>

definition convert_range ::
  "(string \<Rightarrow> error + datetime) \<Rightarrow> datetime \<Rightarrow> datetime \<Rightarrow> string \<Rightarrow> error + (datetime \<times> datetime)"
where
  "convert_range parse_datetime now_end now_start trange =
     (if ''today'' = trange then
        on_ok (timedelta 1 0 0) (\<lambda>td. on_ok (datetime_sub now_start td) (\<lambda>start.
          Inr (start, now_end)))
      else if ''yesterday'' = trange then
        on_ok (timedelta 2 0 0) (\<lambda>td. on_ok (datetime_sub now_start td) (\<lambda>start.
        on_ok (timedelta 1 0 0) (\<lambda>td'. on_ok (datetime_sub now_end td') (\<lambda>end.
          Inr (start, end)))))
      else if length trange > 7 \<and> '' months'' = py_last 7 trange then
        on_ok (int_of (py_drop_last 7 trange)) (\<lambda>n.
        on_ok (timedelta (30 * n) 0 0) (\<lambda>td. on_ok (datetime_sub now_start td) (\<lambda>start.
          Inr (start, now_end))))
      else if length trange > 6 \<and> '' month'' = py_last 6 trange then
        on_ok (int_of (py_drop_last 6 trange)) (\<lambda>n.
        on_ok (timedelta (30 * n) 0 0) (\<lambda>td. on_ok (datetime_sub now_start td) (\<lambda>start.
          Inr (start, now_end))))
      else if length trange > 5 \<and> '' days'' = py_last 5 trange then
        on_ok (int_of (py_drop_last 5 trange)) (\<lambda>n.
        on_ok (timedelta n 0 0) (\<lambda>td. on_ok (datetime_sub now_start td) (\<lambda>start.
          Inr (start, now_end))))
      else if length trange > 1 \<and> ''h'' = py_last 1 trange then
        on_ok (int_of (py_drop_last 1 trange)) (\<lambda>n.
        on_ok (timedelta 0 n 0) (\<lambda>td. on_ok (datetime_sub now_start td) (\<lambda>start.
          Inr (start, now_end))))
      else if length trange > 1 \<and> ''m'' = py_last 1 trange then
        on_ok (int_of (py_drop_last 1 trange)) (\<lambda>n.
        on_ok (timedelta 0 0 n) (\<lambda>td. on_ok (datetime_sub now_start td) (\<lambda>start.
          Inr (start, now_end))))
      else
        (case split_on CHR '','' trange of
           [] \<Rightarrow> Inl IndexError
         | d0 # ds \<Rightarrow>
             on_ok (parse_datetime d0) (\<lambda>start.
               (case ds of
                  [] \<Rightarrow> Inr (start, now_end)
                | d1 # _ \<Rightarrow> on_ok (parse_datetime d1) (\<lambda>end. Inr (start, end))))))"

text \<open>
  The three SQL texts, with the values \<open>format\<close> puts into them: the aggregate of
  \<open>double_value\<close> grouped by \<open>DATE_TRUNC(date_trunc, ts)\<close> for a \<open>Number\<close> point, the same
  with \<open>MIN(string_value)\<close> as second column for a \<open>Bool\<close> point, and the plain
  \<open>ts, string_value\<close> otherwise. All three end in \<open>ORDER BY ... DESC\<close>.
\<close>

datatype sql = NumberSql string string | BoolSql string string | RawSql

text \<open>
  A row of the cursor: \<open>result[0]\<close> is the timestamp in epoch milliseconds,
  \<open>result[1]\<close> the value, \<open>result[2]\<close> the aggregate the \<open>Bool\<close> query adds (read for a
  \<open>Bool\<close> point only).
\<close>

record row =
  col0 :: int
  col1 :: pyval
  col2 :: pyval

text \<open>
  The timestamp of an output row: the epoch milliseconds as they are, or with
  \<open>ts_as_datetime\<close> an aware UTC \<open>datetime\<close> of whole seconds (kept as seconds since 1970).
\<close>

datatype stamp = Epoch int | Datetime int

fun stamp_key :: "stamp \<Rightarrow> int" where
  "stamp_key (Epoch ms) = ms"
| "stamp_key (Datetime secs) = secs"

text \<open>The connection the function opens and its cursor.\<close>

record handle =
  cursor_open :: bool
  conn_open :: bool

text \<open>\<open>cursor.execute(sql, (topic, start, end))\<close>: the rows the store delivers, or its failure.\<close>

type_synonym store = "sql \<Rightarrow> string \<times> datetime \<times> datetime \<Rightarrow> error + row list"

text \<open>The value of an output row.\<close>

definition decode_value :: "bool \<Rightarrow> row \<Rightarrow> error + pyval" where
  "decode_value is_bool result =
     (let v = col1 result in
      if is_bool then
        (if truthy v \<and> (v = VStr ''t'' \<or> v \<noteq> VStr ''0'') then Inr (VInt 1)
         else on_ok (py_round (col2 result)) (\<lambda>r. Inr (VInt r)))
      else Inr v)"

definition decode_row :: "bool \<Rightarrow> bool \<Rightarrow> row \<Rightarrow> error + (stamp \<times> pyval)" where
  "decode_row is_bool ts_as_datetime result =
     on_ok (decode_value is_bool result) (\<lambda>v.
     on_ok (if ts_as_datetime
            then on_ok (utcfromtimestamp (col0 result div 1000)) (\<lambda>secs. Inr (Datetime secs))
            else Inr (Epoch (col0 result))) (\<lambda>ts.
       Inr (ts, v)))"

text \<open>The \<open>while True\<close> loop over \<open>cursor.fetchone()\<close>, appending to \<open>data\<close>.\<close>

fun fetch_all :: "bool \<Rightarrow> bool \<Rightarrow> row list \<Rightarrow> (stamp \<times> pyval) list \<Rightarrow> error + (stamp \<times> pyval) list" where
  "fetch_all is_bool ts_as_datetime [] data = Inr data"
| "fetch_all is_bool ts_as_datetime (result # rest) data =
     on_ok (decode_row is_bool ts_as_datetime result) (\<lambda>r.
       fetch_all is_bool ts_as_datetime rest (data @ [r]))"

text \<open>The validation of \<open>date_trunc\<close> and the default of an empty (or absent) \<open>trange\<close>.\<close>

definition validate_date_trunc :: "string \<Rightarrow> string" where
  "validate_date_trunc date_trunc =
     (if date_trunc \<notin> set [''day'', ''hour'', ''minute'', ''second'']
      then DEFAULT_RES else date_trunc)"

definition range_or_default :: "string \<Rightarrow> string" where
  "range_or_default trange = (if trange = [] then DEFAULT_RANGE else trange)"

text \<open>The choice of the SQL text by the kind of the point.\<close>

definition choose_sql :: "point \<Rightarrow> string \<Rightarrow> string \<Rightarrow> sql" where
  "choose_sql d date_trunc value_func =
     (let is_number = (''Number'' = kind d);
          is_bool = (''Bool'' = kind d)
      in if is_number then NumberSql date_trunc value_func
         else if is_bool then BoolSql date_trunc value_func
         else RawSql)"

text \<open>
  The second half of the function, from the query to the return: the
  query with the bounds \<open>start\<close> and \<open>end\<close>, the loop, the two \<open>close()\<close> calls and the
  reversed list. \<open>h\<close> is the connection the function opened, with its cursor. An
  exception leaves the function where it is raised; nothing catches it.
\<close>

definition query_points ::
  "store \<Rightarrow> handle \<Rightarrow> point \<Rightarrow> string \<Rightarrow> string \<Rightarrow> bool \<Rightarrow> datetime \<Rightarrow> datetime \<Rightarrow>
   (error + (stamp \<times> pyval) list) \<times> handle"
where
  "query_points execute h d date_trunc value_func ts_as_datetime start end =
     (let is_bool = (''Bool'' = kind d);
          sql = choose_sql d date_trunc value_func
      in case execute sql (topic d, start, end) of
           Inl e \<Rightarrow> (Inl e, h)
         | Inr rows \<Rightarrow>
             (case fetch_all is_bool ts_as_datetime rows [] of
                Inl e \<Rightarrow> (Inl e, h)
              | Inr data \<Rightarrow>
                  (Inr (rev data), h\<lparr>cursor_open := False, conn_open := False\<rparr>)))"

text \<open>
  The whole function. It returns what the caller gets (the list, or the exception that
  leaves the function) together with the state of the connection it opened.
\<close>

definition get_point_values ::
  "(string \<Rightarrow> error + datetime) \<Rightarrow> store \<Rightarrow> datetime \<Rightarrow> datetime \<Rightarrow>
   point \<Rightarrow> string \<Rightarrow> string \<Rightarrow> string \<Rightarrow> bool \<Rightarrow> (error + (stamp \<times> pyval) list) \<times> handle"
where
  "get_point_values parse_datetime execute now_end now_start d date_trunc value_func trange ts_as_datetime =
     (let h = \<lparr>cursor_open = True, conn_open = True\<rparr>;
          date_trunc = validate_date_trunc date_trunc;
          trange = range_or_default trange
      in case convert_range parse_datetime now_end now_start trange of
           Inl e \<Rightarrow> (Inl e, h)
         | Inr (start, end) \<Rightarrow>
             query_points execute h d date_trunc value_func ts_as_datetime start end)"



text \<open>
  Example inputs: noon of 2020-09-17 as clock reading, a parser that rejects every
  text, a store that delivers given rows, a \<open>Bool\<close> point and a string point.
\<close>

definition ex_now :: datetime where "ex_now = 63735940800000000"

definition ex_parse :: "string \<Rightarrow> error + datetime" where
  "ex_parse s = Inl ParserError"

definition ex_store :: "row list \<Rightarrow> store" where
  "ex_store rows sql params = Inr rows"

definition ex_point :: "string \<Rightarrow> point" where
  "ex_point k = \<lparr>entity_id = ''p1'', topic = ''campus/b1/ahu1/p1'', kind = k, unit = [],
     equipment_id = ''ahu1'', m_tags = [''his'', ''point'', ''sensor''], kv_tags = [],
     current_value = None\<rparr>"

text \<open>
  Example rows, newest first: for a \<open>Bool\<close> point (the double 2.4 is the rational
  5404319552844595 / 2^51), for a string point (two readings in one second), and rows
  whose representative is the empty string or NULL; a store that fails; a parser that
  knows one date.
\<close>

definition ex_bool_rows :: "row list" where
  "ex_bool_rows =
     [\<lparr>col0 = 1600340460000, col1 = VStr ''0'', col2 = VNum (Fract 5404319552844595 2251799813685248)\<rparr>,
      \<lparr>col0 = 1600340400000, col1 = VStr ''t'', col2 = VNum 1\<rparr>]"

definition ex_string_rows :: "row list" where
  "ex_string_rows =
     [\<lparr>col0 = 1600340400500, col1 = VStr ''on'', col2 = VNone\<rparr>,
      \<lparr>col0 = 1600340400000, col1 = VStr ''off'', col2 = VNone\<rparr>]"

definition ex_failing_store :: store where
  "ex_failing_store sql params = Inl StoreError"

text \<open>The conditions of the seven relative branches of \<open>convert_range\<close>.\<close>

definition relative_token :: "string \<Rightarrow> bool" where
  "relative_token trange =
     (''today'' = trange \<or> ''yesterday'' = trange \<or>
      (length trange > 7 \<and> '' months'' = py_last 7 trange) \<or>
      (length trange > 6 \<and> '' month'' = py_last 6 trange) \<or>
      (length trange > 5 \<and> '' days'' = py_last 5 trange) \<or>
      (length trange > 1 \<and> ''h'' = py_last 1 trange) \<or>
      (length trange > 1 \<and> ''m'' = py_last 1 trange))"

definition ex_parse_2020 :: "string \<Rightarrow> error + datetime" where
  "ex_parse_2020 s = (if s = ''2020-09-01'' then Inr 63734515200000000 else Inl ParserError)"

definition ex_null_rows :: "row list" where
  "ex_null_rows =
     [\<lparr>col0 = 1600340460000, col1 = VStr [], col2 = VNum (Fract 5404319552844595 2251799813685248)\<rparr>,
      \<lparr>col0 = 1600340400000, col1 = VNone, col2 = VNum 0\<rparr>]"

section \<open>The current value of a point\<close>

text \<open>
  Library functions taken as they are: \<open>isoformat\<close> and \<open>strftime\<close> stand for
  \<open>t.isoformat()\<close> and \<open>t.strftime("%m/%d/%Y %H:%M:%S")\<close> of the aware UTC \<open>datetime\<close>
  given by its whole seconds since 1970 and its microsecond; \<open>format_1f s\<close> is
  \<open>format(float(s), '.1f')\<close>, \<open>None\<close> when \<open>float\<close> raises; \<open>format_html\<close> is Django's.
\<close>

record pylib =
  isoformat :: "int \<times> int \<Rightarrow> string"
  strftime :: "int \<times> int \<Rightarrow> string"
  format_1f :: "string \<Rightarrow> string option"
  format_html :: "string \<Rightarrow> error + string"

text \<open>
  The query of \<open>get_current_value_dict\<close>, \<open>SELECT ts, string_value ... WHERE topic = ?
  ORDER BY ts DESC LIMIT 1\<close> followed by \<open>fetchone()\<close>: the newest row of the topic,
  \<open>None\<close> when the store has no row for it, or the failure of the store.
\<close>

type_synonym latest_reading = "string \<Rightarrow> error + (int \<times> string option) option"

record epoch_times =
  e_epoch :: int
  e_fmttime :: string
  e_time :: string

definition format_epoch :: "pylib \<Rightarrow> int \<Rightarrow> error + epoch_times" where
  "format_epoch lib ts =
     on_ok (utcfromtimestamp (ts div 1000)) (\<lambda>secs.
       (let t = (secs, ts mod 1000 * 1000)
        in Inr \<lparr>e_epoch = ts, e_fmttime = strftime lib t, e_time = isoformat lib t\<rparr>))"

definition degree_F :: string where "degree_F = [CHR 0xC2, CHR 0xB0, CHR ''F'']"
definition degree_C :: string where "degree_C = [CHR 0xC2, CHR 0xB0, CHR ''C'']"

text \<open>
  The connection these three functions open, pass on and close has no influence on
  what they return and is left out of their model. \<open>None\<close> is Python's \<open>None\<close>.
\<close>

definition get_current_value_dict :: "pylib \<Rightarrow> latest_reading \<Rightarrow> point \<Rightarrow> error + value_dict option" where
  "get_current_value_dict lib latest point =
     on_ok (latest (topic point)) (\<lambda>result.
       (case result of
          None \<Rightarrow> Inr None
        | Some (ts, string_value) \<Rightarrow>
            on_ok (format_epoch lib ts) (\<lambda>t.
              if kind point = ''Bool'' then
                Inr (Some \<lparr>v_value = BoolV (string_value = Some ''t'' \<or> string_value \<noteq> Some ''0''),
                           v_epoch = ts, v_fmttime = e_fmttime t, v_time = e_time t, v_unit = None\<rparr>)
              else
                (let string_value =
                       (if kind point = ''Number'' \<and> (unit point = degree_F \<or> unit point = degree_C)
                        then (case string_value of
                                None \<Rightarrow> None
                              | Some s \<Rightarrow> (case format_1f lib s of None \<Rightarrow> Some s | Some s' \<Rightarrow> Some s'))
                        else string_value);
                     v = (case string_value of None \<Rightarrow> NoneV | Some s \<Rightarrow> StrV s)
                 in if unit point \<noteq> []
                    then Inr (Some \<lparr>v_value = v, v_epoch = ts, v_fmttime = e_fmttime t,
                                    v_time = e_time t, v_unit = Some (unit point)\<rparr>)
                    else Inr (Some \<lparr>v_value = v, v_epoch = ts, v_fmttime = e_fmttime t,
                                    v_time = e_time t, v_unit = None\<rparr>)))))"

text \<open>\<open>'%s' % value\<close>, after the braces are taken out of a string value.\<close>

fun value_text :: "cv_value \<Rightarrow> string" where
  "value_text (BoolV b) = (if b then ''True'' else ''False'')"
| "value_text (StrV s) =
     (if CHR ''{'' \<in> set s then filter (\<lambda>c. c \<noteq> CHR ''}'') (filter (\<lambda>c. c \<noteq> CHR ''{'') s) else s)"
| "value_text NoneV = ''None''"

definition as_of :: "string \<Rightarrow> string \<Rightarrow> string" where
  "as_of time fmttime =
     '' as of <my-datetime value='' @ [CHR 0x22] @ time @ [CHR 0x22] @ ''>'' @ fmttime @ ''</my-datetime>''"

definition get_current_value :: "pylib \<Rightarrow> latest_reading \<Rightarrow> point \<Rightarrow> bool \<Rightarrow> error + current_value option" where
  "get_current_value lib latest point raw =
     on_ok (get_current_value_dict lib latest point) (\<lambda>d.
       (case d of
          None \<Rightarrow> Inr None
        | Some d \<Rightarrow>
            if raw then Inr (Some (CvDict d))
            else
              (let v = value_text (v_value d) in
               if kind point = ''Bool'' then
                 on_ok (format_html lib (''<b>'' @ v @ ''</b>'' @ as_of (v_time d) (v_fmttime d)))
                   (\<lambda>h. Inr (Some (CvHtml h)))
               else if unit point \<noteq> [] then
                 on_ok (format_html lib (''<b>'' @ v @ ''</b> '' @ unit point @ as_of (v_time d) (v_fmttime d)))
                   (\<lambda>h. Inr (Some (CvHtml h)))
               else
                 on_ok (format_html lib (''<b>'' @ v @ ''</b>'' @ as_of (v_time d) (v_fmttime d)))
                   (\<lambda>h. Inr (Some (CvHtml h))))))"

text \<open>\<open>not cv\<close> for what \<open>get_current_value\<close> returns.\<close>

fun cv_falsy :: "current_value option \<Rightarrow> bool" where
  "cv_falsy None = True"
| "cv_falsy (Some (CvDict d)) = False"
| "cv_falsy (Some CvEmptyDict) = True"
| "cv_falsy (Some (CvHtml h)) = (h = [])"
| "cv_falsy (Some (CvStr s)) = (s = [])"

text \<open>The loop of \<open>add_current_values\<close>; it sets \<open>current_value\<close> on every point in turn.\<close>

fun add_current_values :: "pylib \<Rightarrow> latest_reading \<Rightarrow> point list \<Rightarrow> bool \<Rightarrow> error + point list" where
  "add_current_values lib latest [] raw = Inr []"
| "add_current_values lib latest (d # rest) raw =
     on_ok (get_current_value lib latest d raw) (\<lambda>cv.
       (let cv = (if cv_falsy cv then (if raw then CvEmptyDict else CvStr ''N/A'') else the cv)
        in on_ok (add_current_values lib latest rest raw) (\<lambda>rest'.
             Inr (d\<lparr>current_value := Some cv\<rparr> # rest'))))"

section \<open>\<open>get_ahu_current_values\<close>\<close>

text \<open>An entry of the catalog \<open>q\<close>: the required tags and, where the key is there, the excluded ones.\<close>

record role_query =
  has :: "string list"
  exclude :: "string list option"

definition q :: "(string \<times> role_query) list" where
  "q = [(''Space Air Temp'', \<lparr>has = [''air'', ''his'', ''point'', ''sensor'', ''temp''],
                              exclude = Some [''mixed'', ''discharge'', ''return'', ''outside'']\<rparr>),
        (''Return Air Temp'', \<lparr>has = [''air'', ''his'', ''point'', ''sensor'', ''temp'', ''return''],
                               exclude = None\<rparr>),
        (''Supply Fan Speed'', \<lparr>has = [''air'', ''his'', ''point'', ''sensor'', ''fan'', ''speed'', ''discharge''],
                                exclude = None\<rparr>),
        (''Cooling'', \<lparr>has = [''his'', ''point'', ''sensor'', ''cooling''], exclude = Some [''heat'']\<rparr>),
        (''Heating'', \<lparr>has = [''his'', ''point'', ''sensor'', ''heat''], exclude = Some [''cooling'']\<rparr>),
        (''CO2'', \<lparr>has = [''his'', ''point'', ''sensor'', ''co2'', ''zone''], exclude = None\<rparr>)]"

text \<open>
  The two filters of the ORM on the array column: \<open>m_tags__contains\<close> holds when every
  given tag is in \<open>m_tags\<close>, \<open>m_tags__overlap\<close> when some given tag is. A query set keeps
  the order of the table.
\<close>

definition m_tags_contains :: "string list \<Rightarrow> point \<Rightarrow> bool" where
  "m_tags_contains tags x = list_all (\<lambda>tag. tag \<in> set (m_tags x)) tags"

definition m_tags_overlap :: "string list \<Rightarrow> point \<Rightarrow> bool" where
  "m_tags_overlap tags x = list_ex (\<lambda>tag. tag \<in> set (m_tags x)) tags"

definition candidates :: "point list \<Rightarrow> role_query \<Rightarrow> point list" where
  "candidates data_points t =
     (let p = filter (m_tags_contains (has t)) data_points
      in case exclude t of
           None \<Rightarrow> p
         | Some ex \<Rightarrow> filter (\<lambda>x. \<not> m_tags_overlap ex x) p)"

text \<open>One iteration of the loop over \<open>q.items()\<close>, on the dictionary \<open>results\<close>.\<close>

definition ahu_step ::
  "pylib \<Rightarrow> latest_reading \<Rightarrow> point list \<Rightarrow> (string \<rightharpoonup> point) \<Rightarrow> string \<times> role_query \<Rightarrow>
   error + (string \<rightharpoonup> point)"
where
  "ahu_step lib latest data_points results nt =
     (case nt of (n, t) \<Rightarrow>
        (let p = candidates data_points t in
         if p \<noteq> [] \<and> length p > 0 then
           (let p = (if length p > 1 then sort_key (\<lambda>x. length (m_tags x)) p else p)
            in on_ok (add_current_values lib latest [hd p] True) (\<lambda>r. Inr (results(n \<mapsto> hd r))))
         else Inr results))"

fun ahu_loop ::
  "pylib \<Rightarrow> latest_reading \<Rightarrow> point list \<Rightarrow> (string \<rightharpoonup> point) \<Rightarrow> (string \<times> role_query) list \<Rightarrow>
   error + (string \<rightharpoonup> point)"
where
  "ahu_loop lib latest data_points results [] = Inr results"
| "ahu_loop lib latest data_points results (nt # rest) =
     on_ok (ahu_step lib latest data_points results nt) (\<lambda>results'.
       ahu_loop lib latest data_points results' rest)"

text \<open>\<open>all_points\<close> is the table behind \<open>PointView.objects\<close>.\<close>

definition get_ahu_current_values ::
  "pylib \<Rightarrow> latest_reading \<Rightarrow> point list \<Rightarrow> string \<Rightarrow> error + (string \<rightharpoonup> point)"
where
  "get_ahu_current_values lib latest all_points eid =
     (let data_points = filter (\<lambda>x. equipment_id x = eid) all_points
      in ahu_loop lib latest data_points Map.empty q)"

text \<open>
  Example inputs: library functions with fixed answers, a store with a reading for two
  topics, and the points of two equipments; the two plain air temperature sensors of
  \<open>ahu1\<close> carry seven and five tags.
\<close>

definition ex_lib :: pylib where
  "ex_lib = \<lparr>isoformat = (\<lambda>t. ''2020-09-17T11:00:00+00:00''), strftime = (\<lambda>t. ''09/17/2020 11:00:00''),
     format_1f = (\<lambda>s. if s = ''71.26'' then Some ''71.3'' else None), format_html = Inr\<rparr>"

definition ex_latest :: latest_reading where
  "ex_latest tp = (if tp = ''ahu1/zone_temp'' then Inr (Some (1600340400000, Some ''71.26''))
     else if tp = ''ahu1/fan'' then Inr (Some (1600340400000, Some ''t''))
     else Inr None)"

definition ex_pt :: "string \<Rightarrow> string \<Rightarrow> string \<Rightarrow> string list \<Rightarrow> point" where
  "ex_pt tp k u tags = \<lparr>entity_id = tp, topic = tp, kind = k, unit = u,
     equipment_id = ''ahu1'', m_tags = tags, kv_tags = [], current_value = None\<rparr>"

definition ex_points :: "point list" where
  "ex_points =
    [ex_pt ''ahu1/return_temp'' ''Number'' degree_F [''air'', ''his'', ''point'', ''return'', ''sensor'', ''temp'', ''zone''],
     ex_pt ''ahu1/zone_temp2'' ''Number'' degree_F [''air'', ''his'', ''point'', ''sensor'', ''temp'', ''zone'', ''cur''],
     ex_pt ''ahu1/zone_temp'' ''Number'' degree_F [''air'', ''his'', ''point'', ''sensor'', ''temp''],
     ex_pt ''ahu1/fan'' ''Bool'' [] [''his'', ''point'', ''sensor'', ''cooling''],
     (ex_pt ''ahu2/co2'' ''Number'' ''ppm'' [''his'', ''point'', ''sensor'', ''co2'', ''zone''])\<lparr>equipment_id := ''ahu2''\<rparr>]"

text \<open>The point \<open>p[0]\<close> the loop selects from a non-empty candidate list \<open>p\<close>.\<close>

definition pick :: "point list \<Rightarrow> point" where
  "pick p = hd (if length p > 1 then sort_key (\<lambda>x. length (m_tags x)) p else p)"

text \<open>
  A store that answers every query for the newest reading, with a timestamp
  \<open>format_epoch\<close> can convert.
\<close>

definition store_answers :: "latest_reading \<Rightarrow> bool" where
  "store_answers latest =
     (\<forall>tp. \<exists>r. latest tp = Inr r \<and>
        (case r of None \<Rightarrow> True
         | Some (ts, sv) \<Rightarrow> - 62135596800 \<le> ts div 1000 \<and> ts div 1000 \<le> 253402300799))"

text \<open>The entry of \<open>q\<close> for the role \<open>Space Air Temp\<close>.\<close>

definition ex_space :: role_query where
  "ex_space = \<lparr>has = [''air'', ''his'', ''point'', ''sensor'', ''temp''],
               exclude = Some [''mixed'', ''discharge'', ''return'', ''outside'']\<rparr>"

section \<open>Properties of the tag report\<close>

lemma add_missing_set: "set (add_missing h xs) = set h \<union> set xs"
  by (induction xs arbitrary: h) auto

lemma add_missing_distinct: "distinct h \<Longrightarrow> distinct (add_missing h xs)"
  by (induction xs arbitrary: h) auto

lemma scan_topic_header_set:
  "set (fst (scan_topic (h, tt) t)) =
     set h \<union> (case related_point t of None \<Rightarrow> {} | Some p \<Rightarrow> point_tags p)"
  by (auto simp: scan_topic_def point_tags_def add_missing_set Let_def split: option.splits)

lemma scan_topic_header_distinct:
  "distinct h \<Longrightarrow> distinct (fst (scan_topic (h, tt) t))"
  by (auto simp: scan_topic_def add_missing_distinct Let_def split: option.splits)

lemma foldl_scan_set:
  "set (fst (foldl scan_topic st ts)) = set (fst st) \<union> observed_tags ts"
proof (induction ts arbitrary: st)
  case Nil
  show ?case by simp
next
  case (Cons t ts)
  obtain h tt where st: "st = (h, tt)" by (cases st)
  show ?case
    using Cons.IH [of "scan_topic (h, tt) t"] scan_topic_header_set [of h tt t]
    by (simp add: st Un_assoc)
qed

lemma foldl_scan_distinct:
  "distinct (fst st) \<Longrightarrow> distinct (fst (foldl scan_topic st ts))"
proof (induction ts arbitrary: st)
  case Nil
  then show ?case by simp
next
  case (Cons t ts)
  obtain h tt where st: "st = (h, tt)" by (cases st)
  from Cons.prems have "distinct (fst (scan_topic (h, tt) t))"
    by (simp add: st scan_topic_header_distinct)
  from Cons.IH [OF this] show ?case by (simp add: st)
qed

lemma foldl_snoc_map: "foldl (\<lambda>acc x. acc @ [f x]) acc xs = acc @ map f xs"
  by (induction xs arbitrary: acc) auto

lemma report_rows_eq:
  "fst (get_topics_tags_report topics) =
     map (make_row (sort (fst (scan_topics topics))) (snd (scan_topics topics))) topics"
  by (simp add: get_topics_tags_report_def foldl_snoc_map Let_def split: prod.splits)

lemma report_header_eq:
  "snd (get_topics_tags_report topics) = ''topic'' # sort (fst (scan_topics topics))"
  by (simp add: get_topics_tags_report_def Let_def split: prod.splits)

lemma scan_topic_ok:
  assumes "\<And>n tt. tts n = Some tt \<Longrightarrow> tt_ok tt" and "snd (scan_topic (h, tts) t) n = Some tt"
  shows "tt_ok tt"
proof (cases "tts n = Some tt")
  case True
  then show ?thesis using assms(1) by blast
next
  case False
  with assms(2) show ?thesis
    by (auto simp: scan_topic_def tt_ok_def Let_def split: option.splits if_splits)
qed

lemma foldl_scan_ok:
  "(\<And>n tt. snd st n = Some tt \<Longrightarrow> tt_ok tt) \<Longrightarrow> snd (foldl scan_topic st ts) n = Some tt \<Longrightarrow> tt_ok tt"
proof (induction ts arbitrary: st n tt)
  case Nil
  then show ?case by simp
next
  case (Cons t ts)
  obtain h tts where st: "st = (h, tts)" by (cases st)
  have "\<And>n tt. snd (scan_topic (h, tts) t) n = Some tt \<Longrightarrow> tt_ok tt"
    using scan_topic_ok [of tts h t] Cons.prems(1) by (simp add: st)
  from Cons.IH [OF this] Cons.prems(2) show ?case by (simp add: st)
qed

lemma make_row_length:
  "(\<And>tt. tts (topic_name t) = Some tt \<Longrightarrow> tt_ok tt) \<Longrightarrow> length (make_row h tts t) = Suc (length h)"
  by (auto simp: make_row_def tt_ok_def foldl_snoc_map Let_def split: option.splits)

lemma scan_topic_dom:
  "dom (snd (scan_topic (h, tts) t)) = dom tts \<union> (if untagged t then {} else {topic_name t})"
  by (auto simp: scan_topic_def untagged_def Let_def split: option.splits if_splits)

lemma foldl_scan_dom:
  "dom (snd (foldl scan_topic st ts)) = dom (snd st) \<union> {topic_name t | t. t \<in> set ts \<and> \<not> untagged t}"
proof (induction ts arbitrary: st)
  case Nil
  show ?case by simp
next
  case (Cons t ts)
  obtain h tts where st: "st = (h, tts)" by (cases st)
  show ?case
    using Cons.IH [of "scan_topic (h, tts) t"] scan_topic_dom [of h tts t]
    by (auto simp: st)
qed

lemma make_row_untagged:
  "tts (topic_name t) = None \<Longrightarrow> make_row h tts t = topic_name t # replicate (length h) []"
  by (simp add: make_row_def)


lemma scan_header_sorted:
  "sort (fst (scan_topics topics)) = sorted_list_of_set (observed_tags topics)"
proof -
  have d: "distinct (fst (scan_topics topics))"
    unfolding scan_topics_def by (rule foldl_scan_distinct) simp
  have s: "set (fst (scan_topics topics)) = observed_tags topics"
    unfolding scan_topics_def by (simp add: foldl_scan_set)
  have "sorted_list_of_set (set (fst (scan_topics topics))) = sort (fst (scan_topics topics))"
    using d by (simp add: sorted_list_of_set_sort_remdups distinct_remdups_id)
  then show ?thesis by (simp add: s)
qed

text \<open>
  Claim C8. The header returned by \<open>get_topics_tags_report\<close> is the fixed \<open>"topic"\<close> column
  followed by the lexicographically sorted list of the set of all \<open>kv_tags\<close> keys and
  \<open>m_tags\<close> members observed on the related points of the topics. Hence two topic lists
  that show the same set of tags, in whatever order, get the same header.
\<close>

theorem report_header_sorted_union:
  "snd (get_topics_tags_report topics) = ''topic'' # sorted_list_of_set (observed_tags topics) \<and>
   (\<forall>topics'. observed_tags topics' = observed_tags topics \<longrightarrow>
       snd (get_topics_tags_report topics') = snd (get_topics_tags_report topics))"
  by (simp add: report_header_eq scan_header_sorted)

theorem report_header_sorted_union_witness:
  "observed_tags [ex_B, ex_A] = observed_tags [ex_A, ex_B] \<and>
   snd (get_topics_tags_report [ex_B, ex_A]) = snd (get_topics_tags_report [ex_A, ex_B]) \<and>
   snd (get_topics_tags_report [ex_A, ex_B]) = [''topic'', ''dis'', ''his'']"
proof -
  have h: "observed_tags [ex_B, ex_A] = observed_tags [ex_A, ex_B]"
    by (simp add: ex_A_def ex_B_def point_tags_def Un_commute)
  have "\<forall>topics'. observed_tags topics' = observed_tags [ex_A, ex_B] \<longrightarrow>
       snd (get_topics_tags_report topics') = snd (get_topics_tags_report [ex_A, ex_B])"
    using report_header_sorted_union [of "[ex_A, ex_B]"] by (rule conjunct2)
  then have e: "snd (get_topics_tags_report [ex_B, ex_A]) = snd (get_topics_tags_report [ex_A, ex_B])"
    using h by blast
  have v: "snd (get_topics_tags_report [ex_A, ex_B]) = [''topic'', ''dis'', ''his'']"
    by code_simp
  from h e v show ?thesis by simp
qed

lemma scan_topics_ok: "snd (scan_topics topics) n = Some tt \<Longrightarrow> tt_ok tt"
  unfolding scan_topics_def by (rule foldl_scan_ok [of "([], Map.empty)"]) simp_all

lemma scan_topics_dom:
  "dom (snd (scan_topics topics)) = {topic_name t | t. t \<in> set topics \<and> \<not> untagged t}"
  unfolding scan_topics_def by (simp add: foldl_scan_dom)

lemma untagged_not_in_dom:
  assumes "distinct (map topic_name topics)" "i < length topics" "untagged (topics ! i)"
  shows "snd (scan_topics topics) (topic_name (topics ! i)) = None"
proof (rule ccontr)
  assume "snd (scan_topics topics) (topic_name (topics ! i)) \<noteq> None"
  then have "topic_name (topics ! i) \<in> dom (snd (scan_topics topics))" by auto
  then obtain t where t: "t \<in> set topics" "\<not> untagged t" "topic_name t = topic_name (topics ! i)"
    unfolding scan_topics_dom by auto
  have "inj_on topic_name (set topics)"
    using assms(1) by (simp add: distinct_map)
  moreover have "topics ! i \<in> set topics" using assms(2) by simp
  ultimately have "t = topics ! i" using t(1,3) by (auto dest: inj_onD)
  with t(2) assms(3) show False by simp
qed

text \<open>
  Claim C10. \<open>get_topics_tags_report\<close> returns one row per topic, and every row has exactly
  as many entries as the header. Where topic names are unique (the topic is the key of
  its table), a topic with no related point, or whose point has no tags, yields its name
  followed by the empty string in every tag column.
\<close>

theorem report_rows_shape:
  "length (fst (get_topics_tags_report topics)) = length topics \<and>
   (\<forall>row \<in> set (fst (get_topics_tags_report topics)).
       length row = length (snd (get_topics_tags_report topics))) \<and>
   (distinct (map topic_name topics) \<longrightarrow>
     (\<forall>i < length topics. untagged (topics ! i) \<longrightarrow>
        fst (get_topics_tags_report topics) ! i =
          topic_name (topics ! i) # replicate (length (snd (get_topics_tags_report topics)) - 1) []))"
proof (intro conjI impI allI ballI)
  show "length (fst (get_topics_tags_report topics)) = length topics"
    by (simp add: report_rows_eq)
next
  fix row assume "row \<in> set (fst (get_topics_tags_report topics))"
  then obtain t where "row = make_row (sort (fst (scan_topics topics))) (snd (scan_topics topics)) t"
    by (auto simp: report_rows_eq)
  then show "length row = length (snd (get_topics_tags_report topics))"
    by (simp add: report_header_eq make_row_length scan_topics_ok)
next
  fix i
  assume d: "distinct (map topic_name topics)" and i: "i < length topics" and u: "untagged (topics ! i)"
  have "snd (scan_topics topics) (topic_name (topics ! i)) = None"
    by (rule untagged_not_in_dom [OF d i u])
  then show "fst (get_topics_tags_report topics) ! i =
          topic_name (topics ! i) # replicate (length (snd (get_topics_tags_report topics)) - 1) []"
    using i by (simp add: report_rows_eq report_header_eq make_row_untagged)
qed

theorem report_rows_shape_witness:
  "distinct (map topic_name [ex_A, ex_B, ex_C]) \<and> (2::nat) < length [ex_A, ex_B, ex_C] \<and>
   untagged ([ex_A, ex_B, ex_C] ! 2) \<and>
   [''A'', [], ''X''] \<in> set (fst (get_topics_tags_report [ex_A, ex_B, ex_C])) \<and>
   length [''A'', [], ''X''] = length (snd (get_topics_tags_report [ex_A, ex_B, ex_C])) \<and>
   fst (get_topics_tags_report [ex_A, ex_B, ex_C]) ! 2 = [''C'', [], []]"
proof -
  have r: "get_topics_tags_report [ex_A, ex_B, ex_C] =
     ([[''A'', [], ''X''], [''B'', ''Room 1'', []], [''C'', [], []]], [''topic'', ''dis'', ''his''])"
    by code_simp
  have d: "distinct (map topic_name [ex_A, ex_B, ex_C])"
    by (simp add: ex_A_def ex_B_def ex_C_def)
  have u: "untagged ([ex_A, ex_B, ex_C] ! 2)"
    by (simp add: ex_C_def untagged_def)
  have m: "[''A'', [], ''X''] \<in> set (fst (get_topics_tags_report [ex_A, ex_B, ex_C]))"
    by (simp add: r)
  from report_rows_shape [of "[ex_A, ex_B, ex_C]"] d u m
  have "length [''A'', [], ''X''] = length (snd (get_topics_tags_report [ex_A, ex_B, ex_C])) \<and>
        fst (get_topics_tags_report [ex_A, ex_B, ex_C]) ! 2 =
          topic_name ([ex_A, ex_B, ex_C] ! 2) # replicate (length (snd (get_topics_tags_report [ex_A, ex_B, ex_C])) - 1) []"
    by auto
  then show ?thesis using d u m by (simp add: r)
qed

section \<open>Properties of the range conversion\<close>

subsection \<open>Slices and \<open>int\<close>\<close>











subsection \<open>The branches of \<open>convert_range\<close>\<close>
























section \<open>Properties of the query, the decoding and the connection\<close>

lemma on_ok_Inr: "on_ok r f = Inr y \<Longrightarrow> \<exists>x. r = Inr x \<and> f x = Inr y"
  by (cases r) (simp_all add: on_ok_def)

lemma fetch_all_Inr:
  "fetch_all b t rows acc = Inr data \<Longrightarrow>
     \<exists>xs. data = acc @ xs \<and> map (decode_row b t) rows = map Inr xs"
proof (induction rows arbitrary: acc)
  case Nil
  then show ?case by simp
next
  case (Cons r rows)
  from Cons.prems obtain x where x: "decode_row b t r = Inr x"
    and f: "fetch_all b t rows (acc @ [x]) = Inr data"
    by (auto dest: on_ok_Inr)
  from Cons.IH [OF f] obtain xs where "data = (acc @ [x]) @ xs" "map (decode_row b t) rows = map Inr xs"
    by blast
  then have "data = acc @ (x # xs) \<and> map (decode_row b t) (r # rows) = map Inr (x # xs)"
    using x by simp
  then show ?case by blast
qed

lemma fetch_all_total:
  "\<forall>r \<in> set rows. \<exists>x. decode_row b t r = Inr x \<Longrightarrow> \<exists>data. fetch_all b t rows acc = Inr data"
proof (induction rows arbitrary: acc)
  case Nil
  then show ?case by simp
next
  case (Cons r rows)
  then obtain x where x: "decode_row b t r = Inr x" by auto
  from Cons.IH [of "acc @ [x]"] Cons.prems show ?case
    by (simp add: x on_ok_def)
qed

lemma query_points_Inr:
  assumes "execute (choose_sql d dt vf) (topic d, start, e) = Inr rows"
      and "fst (query_points execute h d dt vf tsdt start e) = Inr data"
  shows "map (decode_row (''Bool'' = kind d) tsdt) rows = map Inr (rev data)"
proof -
  from assms obtain collected where c: "fetch_all (''Bool'' = kind d) tsdt rows [] = Inr collected"
    and d: "data = rev collected"
    by (auto simp: query_points_def Let_def split: sum.splits)
  from fetch_all_Inr [OF c] d show ?thesis by auto
qed

lemma query_points_handle:
  "snd (query_points execute h d dt vf tsdt start e) =
     (case fst (query_points execute h d dt vf tsdt start e) of
        Inl err \<Rightarrow> h
      | Inr data \<Rightarrow> h\<lparr>cursor_open := False, conn_open := False\<rparr>)"
  by (simp add: query_points_def Let_def split: sum.splits)

lemma gpv_unfold:
  "get_point_values p ex ne ns d dt vf tr tsdt =
     (case convert_range p ne ns (range_or_default tr) of
        Inl e \<Rightarrow> (Inl e, \<lparr>cursor_open = True, conn_open = True\<rparr>)
      | Inr (start, end) \<Rightarrow>
          query_points ex \<lparr>cursor_open = True, conn_open = True\<rparr> d (validate_date_trunc dt) vf tsdt start end)"
  by (simp add: get_point_values_def Let_def)

lemma decode_row_stamp:
  "decode_row b t r = Inr x \<Longrightarrow> stamp_key (fst x) = (if t then col0 r div 1000 else col0 r)"
  by (auto simp: decode_row_def on_ok_def utcfromtimestamp_def split: sum.splits if_splits)

lemma decoded_stamps:
  "map (decode_row b t) rows = map Inr xs \<Longrightarrow>
     map (stamp_key \<circ> fst) xs = map (\<lambda>r. if t then col0 r div 1000 else col0 r) rows"
proof (induction rows arbitrary: xs)
  case Nil
  then show ?case by simp
next
  case (Cons r rows)
  then obtain y ys where xs: "xs = y # ys" by (cases xs) auto
  with Cons.prems have "decode_row b t r = Inr y" "map (decode_row b t) rows = map Inr ys" by auto
  with Cons.IH [of ys] decode_row_stamp [of b t r y] show ?case by (simp add: xs)
qed

lemma decode_row_value:
  "decode_row b t r = Inr x \<Longrightarrow> decode_value b r = Inr (snd x)"
  by (auto simp: decode_row_def on_ok_def split: sum.splits if_splits)

lemma split_on_nonempty: "split_on c s \<noteq> []"
  by (induction s) (auto split: list.splits)

lemma conv_not_relative:
  assumes "\<not> relative_token tr"
  shows "convert_range p ne ns tr =
     (case split_on CHR '','' tr of
        [] \<Rightarrow> Inl IndexError
      | d0 # ds \<Rightarrow>
          on_ok (p d0) (\<lambda>start.
            (case ds of
               [] \<Rightarrow> Inr (start, ne)
             | d1 # _ \<Rightarrow> on_ok (p d1) (\<lambda>end. Inr (start, end)))))"
proof -
  from assms have n: "(''today'' = tr) = False" "(''yesterday'' = tr) = False"
    "(length tr > 7 \<and> '' months'' = py_last 7 tr) = False"
    "(length tr > 6 \<and> '' month'' = py_last 6 tr) = False"
    "(length tr > 5 \<and> '' days'' = py_last 5 tr) = False"
    "(length tr > 1 \<and> ''h'' = py_last 1 tr) = False"
    "(length tr > 1 \<and> ''m'' = py_last 1 tr) = False"
    unfolding relative_token_def by blast+
  show ?thesis unfolding convert_range_def by (simp only: n if_False)
qed

lemma conv_date_first_fails:
  assumes "\<not> relative_token tr" "p (hd (split_on CHR '','' tr)) = Inl e"
  shows "convert_range p ne ns tr = Inl e"
proof -
  obtain d0 ds where sp: "split_on CHR '','' tr = d0 # ds"
    using split_on_nonempty [of "CHR '',''" tr] by (cases "split_on CHR '','' tr") auto
  with assms(2) have "p d0 = Inl e" by simp
  then show ?thesis
    by (simp add: conv_not_relative [OF assms(1)] sp on_ok_def)
qed

lemma conv_date_second_fails:
  assumes "\<not> relative_token tr" "split_on CHR '','' tr = d0 # d1 # ds" "p d0 = Inr t" "p d1 = Inl e"
  shows "convert_range p ne ns tr = Inl e"
  using assms(2-4) by (simp add: conv_not_relative [OF assms(1)] on_ok_def)

text \<open>
  Claim C4. \<open>get_point_values\<close> substitutes a default silently in two cases: an empty
  range token behaves as \<open>24h\<close>, and a \<open>date_trunc\<close> outside day, hour, minute, second
  behaves as \<open>minute\<close>. A non-empty token of the explicit date form whose first date
  text, or whose second one, \<open>parse_datetime\<close> rejects makes the call fail with that
  parsing error; no default takes its place.
\<close>

theorem silent_defaults_and_parse_failure:
  "get_point_values p ex now_end now_start d dt vf [] tsdt =
     get_point_values p ex now_end now_start d dt vf ''24h'' tsdt \<and>
   (dt \<notin> {''day'', ''hour'', ''minute'', ''second''} \<longrightarrow>
      get_point_values p ex now_end now_start d dt vf tr tsdt =
        get_point_values p ex now_end now_start d ''minute'' vf tr tsdt) \<and>
   (tr \<noteq> [] \<and> \<not> relative_token tr \<and> p (hd (split_on CHR '','' tr)) = Inl e \<longrightarrow>
      get_point_values p ex now_end now_start d dt vf tr tsdt =
        (Inl e, \<lparr>cursor_open = True, conn_open = True\<rparr>)) \<and>
   (tr \<noteq> [] \<and> \<not> relative_token tr \<and> split_on CHR '','' tr = d0 # d1 # ds \<and>
      p d0 = Inr t \<and> p d1 = Inl e \<longrightarrow>
      get_point_values p ex now_end now_start d dt vf tr tsdt =
        (Inl e, \<lparr>cursor_open = True, conn_open = True\<rparr>))"
proof (intro conjI impI)
  show "get_point_values p ex now_end now_start d dt vf [] tsdt =
     get_point_values p ex now_end now_start d dt vf ''24h'' tsdt"
    by (simp add: gpv_unfold range_or_default_def DEFAULT_RANGE_def)
next
  assume "dt \<notin> {''day'', ''hour'', ''minute'', ''second''}"
  then have "validate_date_trunc dt = validate_date_trunc ''minute''"
    by (simp add: validate_date_trunc_def DEFAULT_RES_def)
  then show "get_point_values p ex now_end now_start d dt vf tr tsdt =
        get_point_values p ex now_end now_start d ''minute'' vf tr tsdt"
    by (simp add: get_point_values_def)
next
  assume a: "tr \<noteq> [] \<and> \<not> relative_token tr \<and> p (hd (split_on CHR '','' tr)) = Inl e"
  then have "convert_range p now_end now_start tr = Inl e"
    using conv_date_first_fails [of tr p e now_end now_start] by simp
  then show "get_point_values p ex now_end now_start d dt vf tr tsdt =
        (Inl e, \<lparr>cursor_open = True, conn_open = True\<rparr>)"
    using a by (simp add: gpv_unfold range_or_default_def)
next
  assume a: "tr \<noteq> [] \<and> \<not> relative_token tr \<and> split_on CHR '','' tr = d0 # d1 # ds \<and>
      p d0 = Inr t \<and> p d1 = Inl e"
  then have "convert_range p now_end now_start tr = Inl e"
    using conv_date_second_fails [of tr d0 d1 ds p t e now_end now_start] by simp
  then show "get_point_values p ex now_end now_start d dt vf tr tsdt =
        (Inl e, \<lparr>cursor_open = True, conn_open = True\<rparr>)"
    using a by (simp add: gpv_unfold range_or_default_def)
qed

theorem silent_defaults_and_parse_failure_witness:
  "''fortnight'' \<notin> {''day'', ''hour'', ''minute'', ''second''} \<and>
   get_point_values ex_parse_2020 (ex_store ex_bool_rows) ex_now ex_now (ex_point ''Bool'') ''fortnight'' ''avg'' ''48h'' False =
     get_point_values ex_parse_2020 (ex_store ex_bool_rows) ex_now ex_now (ex_point ''Bool'') ''minute'' ''avg'' ''48h'' False \<and>
   \<not> relative_token ''2020-13-45'' \<and> ex_parse_2020 (hd (split_on CHR '','' ''2020-13-45'')) = Inl ParserError \<and>
   \<not> relative_token ''2020-09-01,soon'' \<and> split_on CHR '','' ''2020-09-01,soon'' = [''2020-09-01'', ''soon''] \<and>
   get_point_values ex_parse_2020 (ex_store ex_bool_rows) ex_now ex_now (ex_point ''Bool'') ''fortnight'' ''avg'' ''2020-13-45'' False =
     (Inl ParserError, \<lparr>cursor_open = True, conn_open = True\<rparr>) \<and>
   get_point_values ex_parse_2020 (ex_store ex_bool_rows) ex_now ex_now (ex_point ''Bool'') ''fortnight'' ''avg'' ''2020-09-01,soon'' False =
     (Inl ParserError, \<lparr>cursor_open = True, conn_open = True\<rparr>)"
proof -
  have f: "''fortnight'' \<notin> {''day'', ''hour'', ''minute'', ''second''}" by simp
  have r1: "\<not> relative_token ''2020-13-45''" by code_simp
  have r2: "\<not> relative_token ''2020-09-01,soon''" by code_simp
  have s1: "ex_parse_2020 (hd (split_on CHR '','' ''2020-13-45'')) = Inl ParserError" by code_simp
  have s2: "split_on CHR '','' ''2020-09-01,soon'' = [''2020-09-01'', ''soon'']" by code_simp
  have p0: "ex_parse_2020 ''2020-09-01'' = Inr 63734515200000000" by (simp add: ex_parse_2020_def)
  have p1: "ex_parse_2020 ''soon'' = Inl ParserError" by (simp add: ex_parse_2020_def)
  note T1 = silent_defaults_and_parse_failure [of ex_parse_2020 "ex_store ex_bool_rows" ex_now ex_now
      "ex_point ''Bool''" "''fortnight''" "''avg''" False "''48h''"]
  note T2 = silent_defaults_and_parse_failure [of ex_parse_2020 "ex_store ex_bool_rows" ex_now ex_now
      "ex_point ''Bool''" "''fortnight''" "''avg''" False "''2020-13-45''" ParserError]
  note T3 = silent_defaults_and_parse_failure [of ex_parse_2020 "ex_store ex_bool_rows" ex_now ex_now
      "ex_point ''Bool''" "''fortnight''" "''avg''" False "''2020-09-01,soon''" ParserError
      "''2020-09-01''" "''soon''" "[]" 63734515200000000]
  have a: "get_point_values ex_parse_2020 (ex_store ex_bool_rows) ex_now ex_now (ex_point ''Bool'') ''fortnight'' ''avg'' ''48h'' False =
     get_point_values ex_parse_2020 (ex_store ex_bool_rows) ex_now ex_now (ex_point ''Bool'') ''minute'' ''avg'' ''48h'' False"
    using T1 [THEN conjunct2, THEN conjunct1] f by blast
  have b: "get_point_values ex_parse_2020 (ex_store ex_bool_rows) ex_now ex_now (ex_point ''Bool'') ''fortnight'' ''avg'' ''2020-13-45'' False =
     (Inl ParserError, \<lparr>cursor_open = True, conn_open = True\<rparr>)"
    using T2 [THEN conjunct2, THEN conjunct2, THEN conjunct1] r1 s1 by simp
  have c: "get_point_values ex_parse_2020 (ex_store ex_bool_rows) ex_now ex_now (ex_point ''Bool'') ''fortnight'' ''avg'' ''2020-09-01,soon'' False =
     (Inl ParserError, \<lparr>cursor_open = True, conn_open = True\<rparr>)"
    using T3 [THEN conjunct2, THEN conjunct2, THEN conjunct2] r2 s2 p0 p1 by simp
  from f a b c r1 r2 s1 s2 show ?thesis by simp
qed

text \<open>
  Claim C7 (as amended). \<open>get_point_values\<close> closes the cursor and the connection it
  opened exactly when it returns its list; on every path where an exception leaves
  the function, the connection and the cursor are still open.
\<close>

theorem connection_closed_on_return_only:
  "conn_open (snd (get_point_values p ex now_end now_start d dt vf tr tsdt)) =
     (case fst (get_point_values p ex now_end now_start d dt vf tr tsdt) of
        Inl e \<Rightarrow> True | Inr data \<Rightarrow> False) \<and>
   cursor_open (snd (get_point_values p ex now_end now_start d dt vf tr tsdt)) =
     conn_open (snd (get_point_values p ex now_end now_start d dt vf tr tsdt))"
  by (simp add: gpv_unfold query_points_handle split: sum.splits prod.splits)

text \<open>
  Claim C7 as stated fails on both error paths it names: when the explicit date does
  not parse and when the query fails, the function is left with the connection open.
\<close>

theorem connection_left_open_on_error:
  "get_point_values ex_parse (ex_store ex_bool_rows) ex_now ex_now (ex_point ''Bool'') ''minute'' ''avg''
       ''2020-13-45'' False
     = (Inl ParserError, \<lparr>cursor_open = True, conn_open = True\<rparr>) \<and>
   get_point_values ex_parse ex_failing_store ex_now ex_now (ex_point ''Bool'') ''minute'' ''avg''
       ''24h'' False
     = (Inl StoreError, \<lparr>cursor_open = True, conn_open = True\<rparr>)"
  by code_simp

lemma gpv_rows:
  assumes "convert_range p ne ns (range_or_default tr) = Inr (start, e)"
      and "ex (choose_sql d (validate_date_trunc dt) vf) (topic d, start, e) = Inr rows"
      and "fst (get_point_values p ex ne ns d dt vf tr tsdt) = Inr data"
  shows "map (decode_row (''Bool'' = kind d) tsdt) rows = map Inr (rev data)"
proof -
  from assms(1,3)
  have "fst (query_points ex \<lparr>cursor_open = True, conn_open = True\<rparr> d (validate_date_trunc dt) vf tsdt start e) = Inr data"
    by (simp add: gpv_unfold)
  from query_points_Inr [OF assms(2) this] show ?thesis .
qed

lemma gpv_total:
  assumes "convert_range p ne ns (range_or_default tr) = Inr (start, e)"
      and "ex (choose_sql d (validate_date_trunc dt) vf) (topic d, start, e) = Inr rows"
      and "\<forall>r \<in> set rows. \<exists>x. decode_row (''Bool'' = kind d) tsdt r = Inr x"
  shows "\<exists>data. fst (get_point_values p ex ne ns d dt vf tr tsdt) = Inr data"
proof -
  from fetch_all_total [OF assms(3), of "[]"] obtain c where
    "fetch_all (''Bool'' = kind d) tsdt rows [] = Inr c" by blast
  then show ?thesis
    using assms(1,2) by (simp add: gpv_unfold query_points_def Let_def)
qed

lemma decode_value_bool:
  "decode_value True r = Inr v \<Longrightarrow>
     (truthy (col1 r) \<and> col1 r \<noteq> VStr ''0'' \<longrightarrow> v = VInt 1) \<and>
     (\<not> (truthy (col1 r) \<and> col1 r \<noteq> VStr ''0'') \<longrightarrow> (\<exists>k. py_round (col2 r) = Inr k \<and> v = VInt k))"
  by (auto simp: decode_value_def Let_def on_ok_def split: sum.splits if_splits)

text \<open>
  Claim C3 (as amended). For a point of kind \<open>Bool\<close>, \<open>get_point_values\<close> returns a list
  whenever every row decodes, and then the value of every row is 1 when the
  representative value is true in Python's sense (a string that is not empty) and is
  not the literal \<open>"0"\<close>; otherwise it is the rounded numeric aggregate. So \<open>"t"\<close>
  gives 1, and \<open>"0"\<close> with the aggregate 2.4 gives 2.
\<close>

theorem bool_rows_decoded:
  "kind d = ''Bool'' \<and>
   convert_range p now_end now_start (range_or_default tr) = Inr (start, end) \<and>
   ex (BoolSql (validate_date_trunc dt) vf) (topic d, start, end) = Inr rows \<longrightarrow>
     ((\<forall>r \<in> set rows. \<exists>x. decode_row True tsdt r = Inr x) \<longrightarrow>
        (\<exists>data. fst (get_point_values p ex now_end now_start d dt vf tr tsdt) = Inr data)) \<and>
     (\<forall>data. fst (get_point_values p ex now_end now_start d dt vf tr tsdt) = Inr data \<longrightarrow>
        length data = length rows \<and>
        (\<forall>i < length rows.
           (truthy (col1 (rows ! i)) \<and> col1 (rows ! i) \<noteq> VStr ''0'' \<longrightarrow>
              snd (rev data ! i) = VInt 1) \<and>
           (\<not> (truthy (col1 (rows ! i)) \<and> col1 (rows ! i) \<noteq> VStr ''0'') \<longrightarrow>
              (\<exists>k. py_round (col2 (rows ! i)) = Inr k \<and> snd (rev data ! i) = VInt k))))"
proof (intro impI)
  assume a: "kind d = ''Bool'' \<and>
   convert_range p now_end now_start (range_or_default tr) = Inr (start, end) \<and>
   ex (BoolSql (validate_date_trunc dt) vf) (topic d, start, end) = Inr rows"
  then have k: "(''Bool'' = kind d) = True" by simp
  have q: "choose_sql d (validate_date_trunc dt) vf = BoolSql (validate_date_trunc dt) vf"
    using a by (simp add: choose_sql_def)
  from a have c: "convert_range p now_end now_start (range_or_default tr) = Inr (start, end)" by simp
  from a q have e: "ex (choose_sql d (validate_date_trunc dt) vf) (topic d, start, end) = Inr rows" by simp
  show "((\<forall>r \<in> set rows. \<exists>x. decode_row True tsdt r = Inr x) \<longrightarrow>
        (\<exists>data. fst (get_point_values p ex now_end now_start d dt vf tr tsdt) = Inr data)) \<and>
     (\<forall>data. fst (get_point_values p ex now_end now_start d dt vf tr tsdt) = Inr data \<longrightarrow>
        length data = length rows \<and>
        (\<forall>i < length rows.
           (truthy (col1 (rows ! i)) \<and> col1 (rows ! i) \<noteq> VStr ''0'' \<longrightarrow>
              snd (rev data ! i) = VInt 1) \<and>
           (\<not> (truthy (col1 (rows ! i)) \<and> col1 (rows ! i) \<noteq> VStr ''0'') \<longrightarrow>
              (\<exists>k. py_round (col2 (rows ! i)) = Inr k \<and> snd (rev data ! i) = VInt k))))"
  proof (rule conjI)
    show "(\<forall>r \<in> set rows. \<exists>x. decode_row True tsdt r = Inr x) \<longrightarrow>
        (\<exists>data. fst (get_point_values p ex now_end now_start d dt vf tr tsdt) = Inr data)"
      using gpv_total [of p now_end now_start tr start "end" ex d dt vf rows tsdt] c e by (simp add: k)
  next
    show "\<forall>data. fst (get_point_values p ex now_end now_start d dt vf tr tsdt) = Inr data \<longrightarrow>
        length data = length rows \<and>
        (\<forall>i < length rows.
           (truthy (col1 (rows ! i)) \<and> col1 (rows ! i) \<noteq> VStr ''0'' \<longrightarrow>
              snd (rev data ! i) = VInt 1) \<and>
           (\<not> (truthy (col1 (rows ! i)) \<and> col1 (rows ! i) \<noteq> VStr ''0'') \<longrightarrow>
              (\<exists>k. py_round (col2 (rows ! i)) = Inr k \<and> snd (rev data ! i) = VInt k)))"
    proof (rule allI, rule impI)
      fix data assume g: "fst (get_point_values p ex now_end now_start d dt vf tr tsdt) = Inr data"
      from gpv_rows [of p now_end now_start tr start "end" ex d dt vf rows tsdt data] c e g
      have m: "map (decode_row True tsdt) rows = map Inr (rev data)"
        by (simp add: k)
      then have "length (map (decode_row True tsdt) rows) = length (map Inr (rev data))" by simp
      then have l: "length data = length rows" by simp
      have v: "\<forall>i < length rows.
           (truthy (col1 (rows ! i)) \<and> col1 (rows ! i) \<noteq> VStr ''0'' \<longrightarrow>
              snd (rev data ! i) = VInt 1) \<and>
           (\<not> (truthy (col1 (rows ! i)) \<and> col1 (rows ! i) \<noteq> VStr ''0'') \<longrightarrow>
              (\<exists>k. py_round (col2 (rows ! i)) = Inr k \<and> snd (rev data ! i) = VInt k))"
      proof (rule allI, rule impI)
        fix i assume i: "i < length rows"
        from m have "map (decode_row True tsdt) rows ! i = map Inr (rev data) ! i" by simp
        with i l have "decode_row True tsdt (rows ! i) = Inr (rev data ! i)" by simp
        from decode_value_bool [OF decode_row_value [OF this]]
        show "(truthy (col1 (rows ! i)) \<and> col1 (rows ! i) \<noteq> VStr ''0'' \<longrightarrow>
              snd (rev data ! i) = VInt 1) \<and>
           (\<not> (truthy (col1 (rows ! i)) \<and> col1 (rows ! i) \<noteq> VStr ''0'') \<longrightarrow>
              (\<exists>k. py_round (col2 (rows ! i)) = Inr k \<and> snd (rev data ! i) = VInt k))" .
      qed
      from l v show "length data = length rows \<and>
        (\<forall>i < length rows.
           (truthy (col1 (rows ! i)) \<and> col1 (rows ! i) \<noteq> VStr ''0'' \<longrightarrow>
              snd (rev data ! i) = VInt 1) \<and>
           (\<not> (truthy (col1 (rows ! i)) \<and> col1 (rows ! i) \<noteq> VStr ''0'') \<longrightarrow>
              (\<exists>k. py_round (col2 (rows ! i)) = Inr k \<and> snd (rev data ! i) = VInt k)))"
        by (rule conjI)
    qed
  qed
qed

theorem bool_rows_decoded_witness:
  "kind (ex_point ''Bool'') = ''Bool'' \<and>
   convert_range ex_parse ex_now ex_now (range_or_default []) = Inr (63735854400000000, ex_now) \<and>
   ex_store ex_bool_rows (BoolSql (validate_date_trunc ''minute'') ''avg'')
      (topic (ex_point ''Bool''), 63735854400000000, ex_now) = Inr ex_bool_rows \<and>
   fst (get_point_values ex_parse (ex_store ex_bool_rows) ex_now ex_now (ex_point ''Bool'')
          ''minute'' ''avg'' [] False)
     = Inr [(Epoch 1600340400000, VInt 1), (Epoch 1600340460000, VInt 2)] \<and>
   col1 (ex_bool_rows ! 0) = VStr ''0'' \<and>
   py_round (col2 (ex_bool_rows ! 0)) = Inr 2 \<and>
   col1 (ex_bool_rows ! 1) = VStr ''t''"
proof -
  have k: "kind (ex_point ''Bool'') = ''Bool''" by (simp add: ex_point_def)
  have c: "convert_range ex_parse ex_now ex_now (range_or_default []) = Inr (63735854400000000, ex_now)"
    by code_simp
  have e: "ex_store ex_bool_rows (BoolSql (validate_date_trunc ''minute'') ''avg'')
      (topic (ex_point ''Bool''), 63735854400000000, ex_now) = Inr ex_bool_rows"
    by (simp add: ex_store_def)
  have t: "\<forall>r \<in> set ex_bool_rows. \<exists>x. decode_row True False r = Inr x"
    by (simp add: ex_bool_rows_def decode_row_def decode_value_def on_ok_def)
  have g: "fst (get_point_values ex_parse (ex_store ex_bool_rows) ex_now ex_now (ex_point ''Bool'')
          ''minute'' ''avg'' [] False)
     = Inr [(Epoch 1600340400000, VInt 1), (Epoch 1600340460000, VInt 2)]"
    by code_simp
  have r0: "col1 (ex_bool_rows ! 0) = VStr ''0''" "col1 (ex_bool_rows ! 1) = VStr ''t''"
    by (simp_all add: ex_bool_rows_def)
  have p0: "py_round (col2 (ex_bool_rows ! 0)) = Inr 2" by code_simp
  from bool_rows_decoded [of "ex_point ''Bool''" ex_parse ex_now ex_now "[]" 63735854400000000 ex_now
      "ex_store ex_bool_rows" "''minute''" "''avg''" ex_bool_rows False] k c e t
  have "\<exists>data. fst (get_point_values ex_parse (ex_store ex_bool_rows) ex_now ex_now (ex_point ''Bool'')
          ''minute'' ''avg'' [] False) = Inr data"
    by blast
  with k c e g r0 p0 show ?thesis by simp
qed

text \<open>
  Claim C3 as stated fails for an empty or absent representative: neither is the
  literal \<open>"0"\<close>, yet the value is the rounded aggregate (2 and 0 here), not 1.
\<close>

theorem bool_rows_empty_string_rounded:
  "VStr [] \<noteq> VStr ''0'' \<and> VStr [] \<noteq> VStr ''t'' \<and> VNone \<noteq> VStr ''0'' \<and>
   get_point_values ex_parse (ex_store ex_null_rows) ex_now ex_now (ex_point ''Bool'')
       ''minute'' ''avg'' ''24h'' False
     = (Inr [(Epoch 1600340400000, VInt 0), (Epoch 1600340460000, VInt 2)],
        \<lparr>cursor_open = False, conn_open = False\<rparr>)"
  by code_simp

lemma div_1000_mono: "(y::int) < x \<Longrightarrow> y div 1000 \<le> x div 1000"
  by (simp add: zdiv_mono1)

text \<open>
  Claim C6 (as amended). When the store delivers the rows strictly descending by
  timestamp, the list \<open>get_point_values\<close> returns is the reversal of the decoded rows;
  without \<open>ts_as_datetime\<close> it is strictly ascending by timestamp, with
  \<open>ts_as_datetime\<close> the timestamps are cut to whole seconds and the list is ascending,
  strictly so when the rows lie in different seconds.
\<close>

theorem rows_reversed_ascending:
  "convert_range p now_end now_start (range_or_default tr) = Inr (start, end) \<and>
   ex (choose_sql d (validate_date_trunc dt) vf) (topic d, start, end) = Inr rows \<and>
   sorted_wrt (>) (map col0 rows) \<and>
   fst (get_point_values p ex now_end now_start d dt vf tr tsdt) = Inr data \<longrightarrow>
     map Inr data = rev (map (decode_row (''Bool'' = kind d) tsdt) rows) \<and>
     (\<not> tsdt \<longrightarrow> sorted_wrt (<) (map (stamp_key \<circ> fst) data)) \<and>
     (tsdt \<longrightarrow> sorted_wrt (\<le>) (map (stamp_key \<circ> fst) data)) \<and>
     (tsdt \<and> sorted_wrt (\<lambda>a b. b div 1000 < a div 1000) (map col0 rows) \<longrightarrow>
        sorted_wrt (<) (map (stamp_key \<circ> fst) data))"
proof (intro impI)
  assume a: "convert_range p now_end now_start (range_or_default tr) = Inr (start, end) \<and>
   ex (choose_sql d (validate_date_trunc dt) vf) (topic d, start, end) = Inr rows \<and>
   sorted_wrt (>) (map col0 rows) \<and>
   fst (get_point_values p ex now_end now_start d dt vf tr tsdt) = Inr data"
  then have m: "map (decode_row (''Bool'' = kind d) tsdt) rows = map Inr (rev data)"
    using gpv_rows [of p now_end now_start tr start "end" ex d dt vf rows tsdt data] by simp
  have r: "map Inr data = rev (map (decode_row (''Bool'' = kind d) tsdt) rows)"
    by (simp add: m rev_map)
  have "map (stamp_key \<circ> fst) (rev data) = map (\<lambda>r. if tsdt then col0 r div 1000 else col0 r) rows"
    using decoded_stamps [OF m] .
  then have "rev (map (stamp_key \<circ> fst) data) = map (\<lambda>r. if tsdt then col0 r div 1000 else col0 r) rows"
    by (simp add: rev_map)
  then have k: "map (stamp_key \<circ> fst) data = rev (map (\<lambda>r. if tsdt then col0 r div 1000 else col0 r) rows)"
    by (metis rev_rev_ident)
  from a have s: "sorted_wrt (\<lambda>x y. col0 y < col0 x) rows" by (simp add: sorted_wrt_map)
  have s1: "\<not> tsdt \<longrightarrow> sorted_wrt (<) (map (stamp_key \<circ> fst) data)"
    using s by (simp add: k sorted_wrt_rev sorted_wrt_map)
  have "sorted_wrt (\<lambda>x y. col0 y div 1000 \<le> col0 x div 1000) rows"
    using s by (rule sorted_wrt_mono_rel [rotated]) (simp add: div_1000_mono)
  then have s2: "tsdt \<longrightarrow> sorted_wrt (\<le>) (map (stamp_key \<circ> fst) data)"
    by (simp add: k sorted_wrt_rev sorted_wrt_map)
  have s3: "tsdt \<and> sorted_wrt (\<lambda>a b. b div 1000 < a div 1000) (map col0 rows) \<longrightarrow>
        sorted_wrt (<) (map (stamp_key \<circ> fst) data)"
    by (simp add: k sorted_wrt_rev sorted_wrt_map)
  from r s1 s2 s3 show "map Inr data = rev (map (decode_row (''Bool'' = kind d) tsdt) rows) \<and>
     (\<not> tsdt \<longrightarrow> sorted_wrt (<) (map (stamp_key \<circ> fst) data)) \<and>
     (tsdt \<longrightarrow> sorted_wrt (\<le>) (map (stamp_key \<circ> fst) data)) \<and>
     (tsdt \<and> sorted_wrt (\<lambda>a b. b div 1000 < a div 1000) (map col0 rows) \<longrightarrow>
        sorted_wrt (<) (map (stamp_key \<circ> fst) data))"
    by blast
qed

theorem rows_reversed_ascending_witness:
  "convert_range ex_parse ex_now ex_now (range_or_default ''24h'') = Inr (63735854400000000, ex_now) \<and>
   ex_store ex_bool_rows (choose_sql (ex_point ''Bool'') (validate_date_trunc ''minute'') ''avg'')
      (topic (ex_point ''Bool''), 63735854400000000, ex_now) = Inr ex_bool_rows \<and>
   sorted_wrt (>) (map col0 ex_bool_rows) \<and>
   sorted_wrt (\<lambda>a b. b div 1000 < a div 1000) (map col0 ex_bool_rows) \<and>
   fst (get_point_values ex_parse (ex_store ex_bool_rows) ex_now ex_now (ex_point ''Bool'')
          ''minute'' ''avg'' ''24h'' False)
     = Inr [(Epoch 1600340400000, VInt 1), (Epoch 1600340460000, VInt 2)] \<and>
   sorted_wrt (<) (map (stamp_key \<circ> fst) [(Epoch 1600340400000, VInt 1), (Epoch 1600340460000, VInt 2)]) \<and>
   fst (get_point_values ex_parse (ex_store ex_bool_rows) ex_now ex_now (ex_point ''Bool'')
          ''minute'' ''avg'' ''24h'' True)
     = Inr [(Datetime 1600340400, VInt 1), (Datetime 1600340460, VInt 2)] \<and>
   sorted_wrt (<) (map (stamp_key \<circ> fst) [(Datetime 1600340400, VInt 1), (Datetime 1600340460, VInt 2)])"
proof -
  have c: "convert_range ex_parse ex_now ex_now (range_or_default ''24h'') = Inr (63735854400000000, ex_now)"
    by code_simp
  have e: "ex_store ex_bool_rows (choose_sql (ex_point ''Bool'') (validate_date_trunc ''minute'') ''avg'')
      (topic (ex_point ''Bool''), 63735854400000000, ex_now) = Inr ex_bool_rows"
    by (simp add: ex_store_def)
  have s: "sorted_wrt (>) (map col0 ex_bool_rows)"
    "sorted_wrt (\<lambda>a b. b div 1000 < a div 1000) (map col0 ex_bool_rows)"
    by (simp_all add: ex_bool_rows_def)
  have g1: "fst (get_point_values ex_parse (ex_store ex_bool_rows) ex_now ex_now (ex_point ''Bool'')
          ''minute'' ''avg'' ''24h'' False)
     = Inr [(Epoch 1600340400000, VInt 1), (Epoch 1600340460000, VInt 2)]"
    by code_simp
  have g2: "fst (get_point_values ex_parse (ex_store ex_bool_rows) ex_now ex_now (ex_point ''Bool'')
          ''minute'' ''avg'' ''24h'' True)
     = Inr [(Datetime 1600340400, VInt 1), (Datetime 1600340460, VInt 2)]"
    by code_simp
  from rows_reversed_ascending [of ex_parse ex_now ex_now "''24h''" 63735854400000000 ex_now
      "ex_store ex_bool_rows" "ex_point ''Bool''" "''minute''" "''avg''" ex_bool_rows False
      "[(Epoch 1600340400000, VInt 1), (Epoch 1600340460000, VInt 2)]"] c e s(1) g1
  have a1: "sorted_wrt (<) (map (stamp_key \<circ> fst) [(Epoch 1600340400000, VInt 1), (Epoch 1600340460000, VInt 2)])"
    by blast
  from rows_reversed_ascending [of ex_parse ex_now ex_now "''24h''" 63735854400000000 ex_now
      "ex_store ex_bool_rows" "ex_point ''Bool''" "''minute''" "''avg''" ex_bool_rows True
      "[(Datetime 1600340400, VInt 1), (Datetime 1600340460, VInt 2)]"] c e s g2
  have a2: "sorted_wrt (<) (map (stamp_key \<circ> fst) [(Datetime 1600340400, VInt 1), (Datetime 1600340460, VInt 2)])"
    by blast
  from c e s g1 g2 a1 a2 show ?thesis by blast
qed

text \<open>
  Claim C6 as stated fails with \<open>ts_as_datetime\<close>: two readings of a string point half
  a second apart come back with the same timestamp.
\<close>

theorem rows_same_second_not_strict:
  "sorted_wrt (>) (map col0 ex_string_rows) \<and>
   get_point_values ex_parse (ex_store ex_string_rows) ex_now ex_now (ex_point ''String'')
       ''minute'' ''avg'' ''24h'' True
     = (Inr [(Datetime 1600340400, VStr ''off''), (Datetime 1600340400, VStr ''on'')],
        \<lparr>cursor_open = False, conn_open = False\<rparr>) \<and>
   \<not> sorted_wrt (<) (map (stamp_key \<circ> fst)
        [(Datetime 1600340400, VStr ''off''), (Datetime 1600340400, VStr ''on'')])"
  by code_simp

section \<open>Properties of the current values and of the role selection\<close>

lemma gcvd_no_reading:
  "latest (topic point) = Inr None \<Longrightarrow> get_current_value_dict lib latest point = Inr None"
  by (simp add: get_current_value_dict_def on_ok_def)

lemma gcv_no_reading:
  "latest (topic point) = Inr None \<Longrightarrow> get_current_value lib latest point raw = Inr None"
  by (simp add: get_current_value_def gcvd_no_reading on_ok_def)

lemma acv_length: "add_current_values lib latest data raw = Inr d2 \<Longrightarrow> length d2 = length data"
proof (induction data arbitrary: d2)
  case Nil
  then show ?case by simp
next
  case (Cons d rest)
  from Cons.prems obtain cv rest' where
    "add_current_values lib latest rest raw = Inr rest'" "d2 = d\<lparr>current_value := Some cv\<rparr> # rest'"
    by (auto simp: on_ok_def Let_def split: sum.splits)
  with Cons.IH [of rest'] show ?case by simp
qed

lemma acv_no_reading:
  "add_current_values lib latest data raw = Inr d2 \<Longrightarrow> i < length data \<Longrightarrow>
   latest (topic (data ! i)) = Inr None \<Longrightarrow>
   d2 ! i = (data ! i)\<lparr>current_value := Some (if raw then CvEmptyDict else CvStr ''N/A'')\<rparr>"
proof (induction data arbitrary: d2 i)
  case Nil
  then show ?case by simp
next
  case (Cons d rest)
  from Cons.prems(1) obtain cv rest' where c: "get_current_value lib latest d raw = Inr cv"
    and r: "add_current_values lib latest rest raw = Inr rest'"
    and d2: "d2 = d\<lparr>current_value := Some (if cv_falsy cv then (if raw then CvEmptyDict else CvStr ''N/A'') else the cv)\<rparr> # rest'"
    by (auto simp: on_ok_def Let_def split: sum.splits)
  show ?case
  proof (cases i)
    case 0
    with Cons.prems(3) have "get_current_value lib latest d raw = Inr None"
      by (simp add: gcv_no_reading)
    with c have "cv = None" by simp
    then show ?thesis using 0 d2 by simp
  next
    case (Suc j)
    with Cons.prems have "j < length rest" "latest (topic (rest ! j)) = Inr None" by simp_all
    from Cons.IH [OF r this] show ?thesis using Suc d2 by simp
  qed
qed

lemma acv_all_no_reading:
  "\<forall>d \<in> set data. latest (topic d) = Inr None \<Longrightarrow>
   add_current_values lib latest data raw =
     Inr (map (\<lambda>d. d\<lparr>current_value := Some (if raw then CvEmptyDict else CvStr ''N/A'')\<rparr>) data)"
  by (induction data) (simp_all add: gcv_no_reading on_ok_def)

text \<open>
  Claim C9. When the store has no reading for the topic of a point,
  \<open>get_current_value_dict\<close> returns \<open>None\<close> and raises nothing, and so does
  \<open>get_current_value\<close>; \<open>add_current_values\<close> then sets the current value of that point
  to the marker \<open>'N/A'\<close>, or to the empty dictionary when \<open>raw\<close> is set, never to a
  number, and it completes when no point has a reading.
\<close>

theorem no_reading_is_no_data:
  "(latest (topic point) = Inr None \<longrightarrow>
      get_current_value_dict lib latest point = Inr None \<and>
      get_current_value lib latest point raw = Inr None) \<and>
   ((\<forall>d \<in> set data. latest (topic d) = Inr None) \<longrightarrow>
      add_current_values lib latest data raw =
        Inr (map (\<lambda>d. d\<lparr>current_value := Some (if raw then CvEmptyDict else CvStr ''N/A'')\<rparr>) data)) \<and>
   (add_current_values lib latest data raw = Inr d2 \<longrightarrow>
      length d2 = length data \<and>
      (\<forall>i < length data. latest (topic (data ! i)) = Inr None \<longrightarrow>
         d2 ! i = (data ! i)\<lparr>current_value := Some (if raw then CvEmptyDict else CvStr ''N/A'')\<rparr>))"
  using gcvd_no_reading [of latest point lib] gcv_no_reading [of latest point lib raw]
    acv_all_no_reading [of data latest lib raw] acv_length [of lib latest data raw d2]
    acv_no_reading [of lib latest data raw d2]
  by blast

theorem no_reading_is_no_data_witness:
  "ex_latest (topic (ex_points ! 0)) = Inr None \<and>
   get_current_value_dict ex_lib ex_latest (ex_points ! 0) = Inr None \<and>
   get_current_value ex_lib ex_latest (ex_points ! 0) False = Inr None \<and>
   add_current_values ex_lib ex_latest [ex_points ! 0] False =
     Inr [(ex_points ! 0)\<lparr>current_value := Some (CvStr ''N/A'')\<rparr>] \<and>
   add_current_values ex_lib ex_latest [ex_points ! 0, ex_points ! 3] True =
     Inr [(ex_points ! 0)\<lparr>current_value := Some CvEmptyDict\<rparr>,
          (ex_points ! 3)\<lparr>current_value := Some (CvDict
             \<lparr>v_value = BoolV True, v_epoch = 1600340400000, v_fmttime = ''09/17/2020 11:00:00'',
              v_time = ''2020-09-17T11:00:00+00:00'', v_unit = None\<rparr>)\<rparr>]"
proof -
  have l: "ex_latest (topic (ex_points ! 0)) = Inr None" by code_simp
  have a: "add_current_values ex_lib ex_latest [ex_points ! 0, ex_points ! 3] True =
     Inr [(ex_points ! 0)\<lparr>current_value := Some CvEmptyDict\<rparr>,
          (ex_points ! 3)\<lparr>current_value := Some (CvDict
             \<lparr>v_value = BoolV True, v_epoch = 1600340400000, v_fmttime = ''09/17/2020 11:00:00'',
              v_time = ''2020-09-17T11:00:00+00:00'', v_unit = None\<rparr>)\<rparr>]"
    by code_simp
  note T = no_reading_is_no_data [of ex_latest "ex_points ! 0" ex_lib False "[ex_points ! 0]"]
  from T [THEN conjunct1] l
  have 1: "get_current_value_dict ex_lib ex_latest (ex_points ! 0) = Inr None \<and>
           get_current_value ex_lib ex_latest (ex_points ! 0) False = Inr None"
    by blast
  from T [THEN conjunct2, THEN conjunct1] l
  have 2: "add_current_values ex_lib ex_latest [ex_points ! 0] False =
     Inr [(ex_points ! 0)\<lparr>current_value := Some (CvStr ''N/A'')\<rparr>]"
    by simp
  note U = no_reading_is_no_data [of ex_latest "ex_points ! 0" ex_lib True "[ex_points ! 0, ex_points ! 3]"
      "[(ex_points ! 0)\<lparr>current_value := Some CvEmptyDict\<rparr>,
          (ex_points ! 3)\<lparr>current_value := Some (CvDict
             \<lparr>v_value = BoolV True, v_epoch = 1600340400000, v_fmttime = ''09/17/2020 11:00:00'',
              v_time = ''2020-09-17T11:00:00+00:00'', v_unit = None\<rparr>)\<rparr>]"]
  from U [THEN conjunct2, THEN conjunct2] a
  have 3: "length [(ex_points ! 0)\<lparr>current_value := Some CvEmptyDict\<rparr>,
          (ex_points ! 3)\<lparr>current_value := Some (CvDict
             \<lparr>v_value = BoolV True, v_epoch = 1600340400000, v_fmttime = ''09/17/2020 11:00:00'',
              v_time = ''2020-09-17T11:00:00+00:00'', v_unit = None\<rparr>)\<rparr>] =
        length [ex_points ! 0, ex_points ! 3]"
    by blast
  from l a 1 2 3 show ?thesis by blast
qed

lemma candidates_set:
  "candidates dp t =
     filter (\<lambda>x. set (has t) \<subseteq> set (m_tags x) \<and>
                 (case exclude t of None \<Rightarrow> True | Some ex \<Rightarrow> set (m_tags x) \<inter> set ex = {})) dp"
proof -
  have c: "m_tags_contains tags = (\<lambda>x. set tags \<subseteq> set (m_tags x))" for tags
    by (rule ext) (auto simp: m_tags_contains_def list_all_iff)
  have o: "(\<lambda>x. \<not> m_tags_overlap tags x) = (\<lambda>x. set (m_tags x) \<inter> set tags = {})" for tags
    by (rule ext) (auto simp: m_tags_overlap_def list_ex_iff)
  show ?thesis
    by (cases "exclude t") (simp_all add: candidates_def c o)
qed

lemma hd_sort_key_in: "p \<noteq> [] \<Longrightarrow> hd (sort_key f p) \<in> set p"
proof -
  assume "p \<noteq> []"
  then have "sort_key f p \<noteq> []" by (metis length_0_conv length_sort)
  then have "hd (sort_key f p) \<in> set (sort_key f p)" by (rule hd_in_set)
  then show ?thesis by simp
qed

lemma hd_sort_key_min:
  assumes "y \<in> set p"
  shows "f (hd (sort_key f p)) \<le> f y"
proof -
  from assms have y: "y \<in> set (sort_key f p)" by simp
  then obtain x xs where s: "sort_key f p = x # xs" by (cases "sort_key f p") auto
  have "sorted (map f (sort_key f p))" by (rule sorted_sort_key)
  with s have "\<forall>z \<in> set xs. f x \<le> f z" by simp
  with y s show ?thesis by auto
qed

lemma acv_single:
  "add_current_values lib latest [x] True = Inr r \<Longrightarrow> \<exists>cv. r = [x\<lparr>current_value := Some cv\<rparr>]"
  by (auto simp: on_ok_def Let_def split: sum.splits)

lemma pick_in: "p \<noteq> [] \<Longrightarrow> pick p \<in> set p"
  by (simp add: pick_def hd_sort_key_in)

lemma pick_min: "y \<in> set p \<Longrightarrow> length (m_tags (pick p)) \<le> length (m_tags y)"
proof (cases "length p > 1")
  case True
  assume "y \<in> set p"
  from hd_sort_key_min [OF this, of "\<lambda>x. length (m_tags x)"] True show ?thesis
    by (simp add: pick_def)
next
  case False
  assume y: "y \<in> set p"
  then obtain x where "p = [x]" using False by (cases p) auto
  with y show ?thesis by (simp add: pick_def)
qed

lemma pick_single: "pick [x] = x"
  by (simp add: pick_def)

lemma ahu_step_result:
  assumes "ahu_step lib latest dp results (n, t) = Inr r"
  shows "(\<forall>m. m \<noteq> n \<longrightarrow> r m = results m) \<and>
         (candidates dp t = [] \<longrightarrow> r n = results n) \<and>
         (candidates dp t \<noteq> [] \<longrightarrow>
            (\<exists>cv. r n = Some ((pick (candidates dp t))\<lparr>current_value := Some cv\<rparr>)))"
proof (cases "candidates dp t = []")
  case True
  with assms show ?thesis by (simp add: ahu_step_def)
next
  case False
  with assms obtain l where l: "add_current_values lib latest [pick (candidates dp t)] True = Inr l"
    and r: "r = results(n \<mapsto> hd l)"
    by (auto simp: ahu_step_def Let_def on_ok_def pick_def split: sum.splits)
  from acv_single [OF l] obtain cv where "l = [(pick (candidates dp t))\<lparr>current_value := Some cv\<rparr>]"
    by blast
  with r False show ?thesis by auto
qed

lemma ahu_loop_other:
  "ahu_loop lib latest dp results qs = Inr final \<Longrightarrow> n \<notin> fst ` set qs \<Longrightarrow> final n = results n"
proof (induction qs arbitrary: results)
  case Nil
  then show ?case by simp
next
  case (Cons nt rest)
  obtain n' t' where nt: "nt = (n', t')" by (cases nt)
  from Cons.prems(1) obtain r1 where s: "ahu_step lib latest dp results (n', t') = Inr r1"
    and l: "ahu_loop lib latest dp r1 rest = Inr final"
    by (auto simp: nt on_ok_def split: sum.splits)
  from Cons.prems(2) have "n \<noteq> n'" "n \<notin> fst ` set rest" by (auto simp: nt)
  with Cons.IH [OF l] ahu_step_result [OF s] show ?case by simp
qed

lemma ahu_loop_result:
  "ahu_loop lib latest dp results qs = Inr final \<Longrightarrow> distinct (map fst qs) \<Longrightarrow> (n, t) \<in> set qs \<Longrightarrow>
     (candidates dp t = [] \<longrightarrow> final n = results n) \<and>
     (candidates dp t \<noteq> [] \<longrightarrow>
        (\<exists>cv. final n = Some ((pick (candidates dp t))\<lparr>current_value := Some cv\<rparr>)))"
proof (induction qs arbitrary: results)
  case Nil
  then show ?case by simp
next
  case (Cons nt rest)
  obtain n' t' where nt: "nt = (n', t')" by (cases nt)
  from Cons.prems(1) obtain r1 where s: "ahu_step lib latest dp results (n', t') = Inr r1"
    and l: "ahu_loop lib latest dp r1 rest = Inr final"
    by (auto simp: nt on_ok_def split: sum.splits)
  from Cons.prems(2) have d: "n' \<notin> fst ` set rest" "distinct (map fst rest)" by (simp_all add: nt)
  show ?case
  proof (cases "(n, t) = (n', t')")
    case True
    then have "final n = r1 n" using ahu_loop_other [OF l] d(1) by simp
    with ahu_step_result [OF s] True show ?thesis by simp
  next
    case False
    with Cons.prems(3) have m: "(n, t) \<in> set rest" by (auto simp: nt)
    then have "n \<in> fst ` set rest" by force
    with d(1) have "n \<noteq> n'" by auto
    then have "r1 n = results n" using ahu_step_result [OF s] by simp
    with Cons.IH [OF l d(2) m] show ?thesis by simp
  qed
qed

lemma gcv_raw_total:
  assumes "store_answers latest"
  shows "\<exists>cv. get_current_value lib latest x True = Inr cv"
proof -
  from assms obtain r where r: "latest (topic x) = Inr r"
    and b: "case r of None \<Rightarrow> True
         | Some (ts, sv) \<Rightarrow> - 62135596800 \<le> ts div 1000 \<and> ts div 1000 \<le> 253402300799"
    unfolding store_answers_def by blast
  show ?thesis
  proof (cases r)
    case None
    with r show ?thesis by (simp add: gcv_no_reading)
  next
    case (Some a)
    obtain ts sv where a: "a = (ts, sv)" by (cases a)
    with b Some have "\<exists>e. format_epoch lib ts = Inr e"
      by (simp add: format_epoch_def utcfromtimestamp_def on_ok_def Let_def)
    then obtain e where "format_epoch lib ts = Inr e" by blast
    then have "\<exists>d. get_current_value_dict lib latest x = Inr (Some d)"
      using r Some a by (simp add: get_current_value_dict_def on_ok_def Let_def)
    then show ?thesis by (auto simp: get_current_value_def on_ok_def)
  qed
qed

lemma ahu_step_total:
  assumes "store_answers latest"
  shows "\<exists>r. ahu_step lib latest dp results nt = Inr r"
proof -
  obtain n t where nt: "nt = (n, t)" by (cases nt)
  have "\<exists>l. add_current_values lib latest [x] True = Inr l" for x
    using gcv_raw_total [OF assms, of lib x] by (auto simp: on_ok_def Let_def)
  then obtain l where "add_current_values lib latest [pick (candidates dp t)] True = Inr l"
    by blast
  then show ?thesis
    by (cases "candidates dp t = []") (simp_all add: nt ahu_step_def Let_def on_ok_def pick_def)
qed

lemma ahu_loop_total:
  assumes "store_answers latest"
  shows "\<exists>r. ahu_loop lib latest dp results qs = Inr r"
proof (induction qs arbitrary: results)
  case Nil
  show ?case by simp
next
  case (Cons nt rest)
  from ahu_step_total [OF assms, of lib dp results nt] obtain r1 where
    "ahu_step lib latest dp results nt = Inr r1" by blast
  with Cons [of r1] show ?case by (simp add: on_ok_def)
qed

lemma q_distinct: "distinct (map fst q)"
  by (simp add: q_def)

text \<open>
  Claim C2. For the points of an equipment and every role of the catalog \<open>q\<close>, the
  candidates of \<open>get_ahu_current_values\<close> are the points whose \<open>m_tags\<close> contain all
  required tags of the role and share no tag with its excluded tags. The function
  returns when the store answers; in its result the role is absent when there is no
  candidate, a single candidate is selected, and among several candidates a point with
  the fewest \<open>m_tags\<close> is selected (with its current value attached).
\<close>

theorem ahu_role_selection:
  "data_points = filter (\<lambda>x. equipment_id x = eid) all_points \<and> (n, t) \<in> set q \<longrightarrow>
     candidates data_points t =
       filter (\<lambda>x. set (has t) \<subseteq> set (m_tags x) \<and>
                   (case exclude t of None \<Rightarrow> True | Some ex \<Rightarrow> set (m_tags x) \<inter> set ex = {}))
         data_points \<and>
     (store_answers latest \<longrightarrow>
        (\<exists>results. get_ahu_current_values lib latest all_points eid = Inr results)) \<and>
     (\<forall>results. get_ahu_current_values lib latest all_points eid = Inr results \<longrightarrow>
        (candidates data_points t = [] \<longrightarrow> results n = None) \<and>
        (\<forall>x. candidates data_points t = [x] \<longrightarrow>
           (\<exists>cv. results n = Some (x\<lparr>current_value := Some cv\<rparr>))) \<and>
        (candidates data_points t \<noteq> [] \<longrightarrow>
           (\<exists>x \<in> set (candidates data_points t). \<exists>cv.
              results n = Some (x\<lparr>current_value := Some cv\<rparr>) \<and>
              (\<forall>y \<in> set (candidates data_points t). length (m_tags x) \<le> length (m_tags y)))))"
proof (rule impI)
  assume a: "data_points = filter (\<lambda>x. equipment_id x = eid) all_points \<and> (n, t) \<in> set q"
  then have g: "get_ahu_current_values lib latest all_points eid =
      ahu_loop lib latest data_points Map.empty q"
    by (simp add: get_ahu_current_values_def)
  from a have m: "(n, t) \<in> set q" by simp
  have 1: "candidates data_points t =
       filter (\<lambda>x. set (has t) \<subseteq> set (m_tags x) \<and>
                   (case exclude t of None \<Rightarrow> True | Some ex \<Rightarrow> set (m_tags x) \<inter> set ex = {}))
         data_points"
    by (rule candidates_set)
  have 2: "store_answers latest \<longrightarrow>
        (\<exists>results. get_ahu_current_values lib latest all_points eid = Inr results)"
    using ahu_loop_total [of latest lib data_points Map.empty q] by (simp add: g)
  have 3: "\<forall>results. get_ahu_current_values lib latest all_points eid = Inr results \<longrightarrow>
        (candidates data_points t = [] \<longrightarrow> results n = None) \<and>
        (\<forall>x. candidates data_points t = [x] \<longrightarrow>
           (\<exists>cv. results n = Some (x\<lparr>current_value := Some cv\<rparr>))) \<and>
        (candidates data_points t \<noteq> [] \<longrightarrow>
           (\<exists>x \<in> set (candidates data_points t). \<exists>cv.
              results n = Some (x\<lparr>current_value := Some cv\<rparr>) \<and>
              (\<forall>y \<in> set (candidates data_points t). length (m_tags x) \<le> length (m_tags y))))"
  proof (rule allI, rule impI)
    fix results assume "get_ahu_current_values lib latest all_points eid = Inr results"
    then have l: "ahu_loop lib latest data_points Map.empty q = Inr results" by (simp add: g)
    note r = ahu_loop_result [OF l q_distinct m]
    have e: "candidates data_points t = [] \<longrightarrow> results n = None"
      using r by simp
    have s: "\<forall>x. candidates data_points t = [x] \<longrightarrow>
           (\<exists>cv. results n = Some (x\<lparr>current_value := Some cv\<rparr>))"
      using r by (auto simp: pick_single)
    have f: "candidates data_points t \<noteq> [] \<longrightarrow>
           (\<exists>x \<in> set (candidates data_points t). \<exists>cv.
              results n = Some (x\<lparr>current_value := Some cv\<rparr>) \<and>
              (\<forall>y \<in> set (candidates data_points t). length (m_tags x) \<le> length (m_tags y)))"
    proof
      assume ne: "candidates data_points t \<noteq> []"
      with r obtain cv where
        "results n = Some ((pick (candidates data_points t))\<lparr>current_value := Some cv\<rparr>)"
        by blast
      with pick_in [OF ne] pick_min [of _ "candidates data_points t"]
      show "\<exists>x \<in> set (candidates data_points t). \<exists>cv.
              results n = Some (x\<lparr>current_value := Some cv\<rparr>) \<and>
              (\<forall>y \<in> set (candidates data_points t). length (m_tags x) \<le> length (m_tags y))"
        by blast
    qed
    from e s f show "(candidates data_points t = [] \<longrightarrow> results n = None) \<and>
        (\<forall>x. candidates data_points t = [x] \<longrightarrow>
           (\<exists>cv. results n = Some (x\<lparr>current_value := Some cv\<rparr>))) \<and>
        (candidates data_points t \<noteq> [] \<longrightarrow>
           (\<exists>x \<in> set (candidates data_points t). \<exists>cv.
              results n = Some (x\<lparr>current_value := Some cv\<rparr>) \<and>
              (\<forall>y \<in> set (candidates data_points t). length (m_tags x) \<le> length (m_tags y))))"
      by blast
  qed
  from 1 2 3 show "candidates data_points t =
       filter (\<lambda>x. set (has t) \<subseteq> set (m_tags x) \<and>
                   (case exclude t of None \<Rightarrow> True | Some ex \<Rightarrow> set (m_tags x) \<inter> set ex = {}))
         data_points \<and>
     (store_answers latest \<longrightarrow>
        (\<exists>results. get_ahu_current_values lib latest all_points eid = Inr results)) \<and>
     (\<forall>results. get_ahu_current_values lib latest all_points eid = Inr results \<longrightarrow>
        (candidates data_points t = [] \<longrightarrow> results n = None) \<and>
        (\<forall>x. candidates data_points t = [x] \<longrightarrow>
           (\<exists>cv. results n = Some (x\<lparr>current_value := Some cv\<rparr>))) \<and>
        (candidates data_points t \<noteq> [] \<longrightarrow>
           (\<exists>x \<in> set (candidates data_points t). \<exists>cv.
              results n = Some (x\<lparr>current_value := Some cv\<rparr>) \<and>
              (\<forall>y \<in> set (candidates data_points t). length (m_tags x) \<le> length (m_tags y)))))"
    by (intro conjI)
qed

theorem ahu_role_selection_witness:
  "(''Space Air Temp'', ex_space) \<in> set q \<and> store_answers ex_latest \<and>
   candidates (filter (\<lambda>x. equipment_id x = ''ahu1'') ex_points) ex_space = [ex_points ! 1, ex_points ! 2] \<and>
   length (m_tags (ex_points ! 1)) = 7 \<and> length (m_tags (ex_points ! 2)) = 5 \<and>
   (\<exists>results. get_ahu_current_values ex_lib ex_latest ex_points ''ahu1'' = Inr results \<and>
      results ''Space Air Temp'' =
        Some ((ex_points ! 2)\<lparr>current_value := Some (CvDict
           \<lparr>v_value = StrV ''71.3'', v_epoch = 1600340400000, v_fmttime = ''09/17/2020 11:00:00'',
            v_time = ''2020-09-17T11:00:00+00:00'', v_unit = Some degree_F\<rparr>)\<rparr>) \<and>
      results ''Return Air Temp'' = Some ((ex_points ! 0)\<lparr>current_value := Some CvEmptyDict\<rparr>) \<and>
      results ''Heating'' = None)"
proof -
  have m: "(''Space Air Temp'', ex_space) \<in> set q" by (simp add: q_def ex_space_def)
  have s: "store_answers ex_latest" by (simp add: store_answers_def ex_latest_def)
  have c: "candidates (filter (\<lambda>x. equipment_id x = ''ahu1'') ex_points) ex_space = [ex_points ! 1, ex_points ! 2]"
    by code_simp
  have l: "length (m_tags (ex_points ! 1)) = 7" "length (m_tags (ex_points ! 2)) = 5"
    by code_simp+
  have v: "case get_ahu_current_values ex_lib ex_latest ex_points ''ahu1'' of
       Inl e \<Rightarrow> False
     | Inr results \<Rightarrow>
         results ''Space Air Temp'' =
           Some ((ex_points ! 2)\<lparr>current_value := Some (CvDict
             \<lparr>v_value = StrV ''71.3'', v_epoch = 1600340400000, v_fmttime = ''09/17/2020 11:00:00'',
              v_time = ''2020-09-17T11:00:00+00:00'', v_unit = Some degree_F\<rparr>)\<rparr>) \<and>
         results ''Return Air Temp'' = Some ((ex_points ! 0)\<lparr>current_value := Some CvEmptyDict\<rparr>) \<and>
         results ''Heating'' = None"
    by code_simp
  from ahu_role_selection [of "filter (\<lambda>x. equipment_id x = ''ahu1'') ex_points" "''ahu1''" ex_points
      "''Space Air Temp''" ex_space ex_latest ex_lib] m s
  obtain results where r: "get_ahu_current_values ex_lib ex_latest ex_points ''ahu1'' = Inr results"
    by blast
  with v have "results ''Space Air Temp'' =
           Some ((ex_points ! 2)\<lparr>current_value := Some (CvDict
             \<lparr>v_value = StrV ''71.3'', v_epoch = 1600340400000, v_fmttime = ''09/17/2020 11:00:00'',
              v_time = ''2020-09-17T11:00:00+00:00'', v_unit = Some degree_F\<rparr>)\<rparr>) \<and>
         results ''Return Air Temp'' = Some ((ex_points ! 0)\<lparr>current_value := Some CvEmptyDict\<rparr>) \<and>
         results ''Heating'' = None"
    by simp
  with r m s c l show ?thesis by blast
qed

end
